theory Spec2Isabelle
  imports Main
begin

section \<open>Python string operations used by the bot\<close>

text \<open>
  A Python string is the list of its code points.  The literals of the program (prefixes,
  separators, list entries, dictionary values) are ASCII; \<open>lit\<close> gives the code points of
  one.
\<close>

type_synonym str = "nat list"

definition lit :: "string \<Rightarrow> str" where
  "lit cs = map of_char cs"

definition startswith :: "str \<Rightarrow> str \<Rightarrow> bool" where
  "startswith s p = (take (length p) s = p)"

text \<open>\<^verbatim>\<open>s.split(c)\<close> for a separator of one character: one part more than there are
  separators, empty parts kept.\<close>

fun split :: "nat \<Rightarrow> str \<Rightarrow> str list" where
  "split c [] = [[]]"
| "split c (x # xs) =
     (if x = c then [] # split c xs
      else (case split c xs of [] \<Rightarrow> [[x]] | p # ps \<Rightarrow> (x # p) # ps))"

text \<open>\<^verbatim>\<open>sep.join(parts)\<close>.\<close>

fun join :: "str \<Rightarrow> str list \<Rightarrow> str" where
  "join sep [] = []"
| "join sep [p] = p"
| "join sep (p # q # ps) = p @ sep @ join sep (q # ps)"

text \<open>\<^verbatim>\<open>s.replace(old, new)\<close>: the occurrences of \<open>old\<close> are replaced from the left,
  without overlap; an empty \<open>old\<close> matches before every character and at the end.\<close>

function replace :: "str \<Rightarrow> str \<Rightarrow> str \<Rightarrow> str" where
  "replace old new s =
     (if old = [] then new @ concat (map (\<lambda>c. c # new) s)
      else if s = [] then []
      else if startswith s old then new @ replace old new (drop (length old) s)
      else hd s # replace old new (tl s))"
  by pat_completeness auto
termination
  by (relation "measure (\<lambda>(old, new, s). length s)") auto

text \<open>\<^verbatim>\<open>str.isspace\<close> on one code point: the characters of category \<^verbatim>\<open>Zs\<close> or of
  bidirectional class \<^verbatim>\<open>WS\<close>, \<^verbatim>\<open>B\<close> or \<^verbatim>\<open>S\<close>.\<close>

definition isspace :: "nat \<Rightarrow> bool" where
  "isspace c =
     ((9 \<le> c \<and> c \<le> 13) \<or> (28 \<le> c \<and> c \<le> 32) \<or> c = 133 \<or> c = 160 \<or> c = 5760
      \<or> (8192 \<le> c \<and> c \<le> 8202) \<or> c = 8232 \<or> c = 8233 \<or> c = 8239 \<or> c = 8287
      \<or> c = 12288)"

text \<open>\<^verbatim>\<open>s.strip()\<close>.\<close>

definition strip :: "str \<Rightarrow> str" where
  "strip s = rev (dropWhile isspace (rev (dropWhile isspace s)))"

text \<open>\<^verbatim>\<open>s.lower()\<close>, on the code points below 256.  The program lowers the entries of
  \<^verbatim>\<open>STATUS_OPTIONS\<close>, the library the name of a command, which is ASCII.\<close>

definition lower_char :: "nat \<Rightarrow> nat" where
  "lower_char c =
     (if (65 \<le> c \<and> c \<le> 90) \<or> (192 \<le> c \<and> c \<le> 222 \<and> c \<noteq> 215) then c + 32 else c)"

definition lower :: "str \<Rightarrow> str" where
  "lower s = map lower_char s"

text \<open>The decimal numeral of an integer, as an f-string renders it.\<close>

definition digit_char :: "nat \<Rightarrow> nat" where
  "digit_char d = 48 + d"

fun digits :: "nat \<Rightarrow> str" where
  "digits n = (if n < 10 then [digit_char n] else digits (n div 10) @ [digit_char (n mod 10)])"

definition str_int :: "int \<Rightarrow> str" where
  "str_int i = (if i < 0 then 45 # digits (nat (- i)) else digits (nat i))"

text \<open>Reading a decimal numeral back (\<^verbatim>\<open>int(s)\<close> on the numerals that \<open>str_int\<close>
  writes), and the sequence number that a complaint id carries after \<^verbatim>\<open>complaint_\<close>.\<close>

definition digit_val :: "nat \<Rightarrow> nat" where
  "digit_val c = c - 48"

definition nat_of_digits :: "str \<Rightarrow> nat" where
  "nat_of_digits s = foldl (\<lambda>a c. 10 * a + digit_val c) 0 s"

definition int_of_str :: "str \<Rightarrow> int" where
  "int_of_str s =
     (case s of
        [] \<Rightarrow> 0
      | c # r \<Rightarrow> if c = 45 then - int (nat_of_digits r) else int (nat_of_digits s))"

definition complaint_number :: "str \<Rightarrow> int" where
  "complaint_number complaint_id = int_of_str (drop (length (lit ''complaint_'')) complaint_id)"

text \<open>\<^verbatim>\<open>sub in s\<close> on strings.\<close>

definition contains :: "str \<Rightarrow> str \<Rightarrow> bool" where
  "contains s sub = list_ex (\<lambda>i. startswith (drop i s) sub) [0 ..< Suc (length s)]"

section \<open>Data\<close>

text \<open>The sender of an update (\<^verbatim>\<open>update.effective_user\<close>): \<^verbatim>\<open>id\<close>,
  \<^verbatim>\<open>username\<close> (may be absent) and \<^verbatim>\<open>first_name\<close>.\<close>

record user =
  uid :: int
  user_name :: "str option"
  first_name :: str

text \<open>One size of an uploaded photo (\<^verbatim>\<open>PhotoSize\<close>).\<close>

record photo_size =
  file_id :: str
  width :: nat
  height :: nat

text \<open>The dictionary built by \<^verbatim>\<open>create_complaint\<close>.  The draft fields are read with
  \<^verbatim>\<open>dict.get\<close>, so each of them may be \<^verbatim>\<open>None\<close>.\<close>

record complaint =
  cid :: str
  user_id :: int
  username :: "str option"
  batch :: "str option"
  subject :: "str option"
  lecture_name :: "str option"
  photo_file_id :: str
  status :: str
  created_at :: "str option"

text \<open>The conversation states; \<open>END\<close> is \<^verbatim>\<open>ConversationHandler.END\<close>.\<close>

datatype conv_state =
  BATCH_SELECTION | SUBJECT_SELECTION | LECTURE_NAME_INPUT | SCREENSHOT_UPLOAD
| ADMIN_STATUS_UPDATE | END

definition BATCHES :: "str list" where
  "BATCHES = map lit [''Master quest 2.0 2025'', ''master quest 2026'', ''Ace ipm crash course'']"

definition SUBJECTS :: "str list" where
  "SUBJECTS = map lit [''Quant'', ''DILR'', ''VARC'', ''Current Affairs'']"

definition STATUS_OPTIONS :: "str list" where
  "STATUS_OPTIONS = map lit [''Send'', ''Seen'', ''Approved'', ''Resolved'']"

text \<open>The status enumeration of the specification's data model.\<close>

definition status_enum :: "str list" where
  "status_enum = map lit [''submitted'', ''send'', ''seen'', ''approved'', ''resolved'']"

text \<open>
  The global variables of the module, and the table of running conversations that the
  library's \<^verbatim>\<open>ConversationHandler\<close> keeps.  The handler is built with the library's
  defaults, so a conversation is keyed by the chat and the user of an update; the drafts
  in \<^verbatim>\<open>user_data_store\<close> are keyed by the user alone.  The keys of a draft are the
  literals \<^verbatim>\<open>batch\<close>, \<^verbatim>\<open>subject\<close>, \<^verbatim>\<open>lecture_name\<close> and \<^verbatim>\<open>complaint_id\<close>.
\<close>

type_synonym conv_key = "int \<times> int"

record bot_state =
  user_data_store :: "int \<rightharpoonup> (string \<rightharpoonup> str)"
  complaint_store :: "str \<rightharpoonup> complaint"
  complaint_counter :: int
  conversations :: "conv_key \<rightharpoonup> conv_state"

definition initial_state :: bot_state where
  "initial_state =
     \<lparr>user_data_store = Map.empty, complaint_store = Map.empty, complaint_counter = 0,
      conversations = Map.empty\<rparr>"

section \<open>The messaging gateway\<close>

text \<open>
  The texts the bot sends are kept as constructors that carry the interpolated values;
  their wording and markup are not modelled.  A keyboard is the rows of its buttons, a
  button its label and its callback data.
\<close>

type_synonym keyboard = "(str \<times> str) list list"

datatype message_text =
  WelcomeText str
| StartingOverText
| BatchSelectedText str
| SubjectSelectedText str "str option"
| InvalidLectureNameText
| LectureSavedText str "str option" "str option"
| SendImageText
| ComplaintSubmittedText str
| ComplaintText int str "str option" "str option" "str option" str str
| NotAuthorizedText
| ComplaintNotFoundText
| StatusChangedText str str "str option" "str option"
| StatusUpdatedNotifiedText str
| StatusUpdatedNotNotifiedText str
| CancelledText
| UnknownCommandText

text \<open>The calls a handler makes on the gateway.  A reply goes to the chat of the update
  it answers.\<close>

datatype call =
  Answer "message_text option" bool
| ReplyText message_text "keyboard option"
| SendPhoto int str
| SendMessage int message_text "keyboard option"
| EditMessageText message_text "keyboard option"

text \<open>
  How a call ends: it returns, raises \<^verbatim>\<open>BadRequest\<close> with a message, or raises
  another exception.  The gateway is asked about every call.  When a call outside a
  \<^verbatim>\<open>try\<close> block raises, the handler ends there: what it has written to the globals
  stays, and the library, which gets no state back, leaves the conversation as it was.
\<close>

datatype outcome = Returned | BadRequest str | OtherError

type_synonym gateway = "call \<Rightarrow> outcome"

datatype 'a completion = Returns 'a | Raises

text \<open>The updates the gateway delivers, each with the id of its chat and its sender.  A
  command carries its name, a photo message the sizes of the photo.\<close>

datatype update =
  Command int user str
| TextMessage int user str
| PhotoMessage int user "photo_size list"
| CallbackQuery int user str
| OtherMessage int user

fun effective_chat :: "update \<Rightarrow> int" where
  "effective_chat (Command ch u c) = ch"
| "effective_chat (TextMessage ch u t) = ch"
| "effective_chat (PhotoMessage ch u p) = ch"
| "effective_chat (CallbackQuery ch u d) = ch"
| "effective_chat (OtherMessage ch u) = ch"

fun effective_user :: "update \<Rightarrow> user" where
  "effective_user (Command ch u c) = u"
| "effective_user (TextMessage ch u t) = u"
| "effective_user (PhotoMessage ch u p) = u"
| "effective_user (CallbackQuery ch u d) = u"
| "effective_user (OtherMessage ch u) = u"

section \<open>Utility functions\<close>

definition store_user_data :: "bot_state \<Rightarrow> int \<Rightarrow> string \<Rightarrow> str \<Rightarrow> bot_state" where
  "store_user_data s user_id' key val =
     (let d = (case user_data_store s user_id' of None \<Rightarrow> Map.empty | Some d \<Rightarrow> d)
      in s\<lparr>user_data_store := (user_data_store s)(user_id' \<mapsto> d(key \<mapsto> val))\<rparr>)"

text \<open>\<^verbatim>\<open>get_user_data(user_id)\<close>, as every caller uses it: without a key.\<close>

definition get_user_data :: "bot_state \<Rightarrow> int \<Rightarrow> (string \<rightharpoonup> str)" where
  "get_user_data s user_id' =
     (case user_data_store s user_id' of None \<Rightarrow> Map.empty | Some d \<Rightarrow> d)"

definition clear_user_data :: "bot_state \<Rightarrow> int \<Rightarrow> bot_state" where
  "clear_user_data s user_id' =
     (if user_id' \<in> dom (user_data_store s)
      then s\<lparr>user_data_store := (user_data_store s)(user_id' := None)\<rparr> else s)"

definition create_complaint ::
  "bot_state \<Rightarrow> int \<Rightarrow> str option \<Rightarrow> str option \<Rightarrow> str option \<Rightarrow> str option \<Rightarrow> str
     \<Rightarrow> bot_state \<times> str" where
  "create_complaint s user_id' username' batch' subject' lecture_name' photo_file_id' =
     (let counter = complaint_counter s + 1;
          complaint_id = lit ''complaint_'' @ str_int counter;
          complaint_data =
            \<lparr>cid = complaint_id, user_id = user_id', username = username', batch = batch',
             subject = subject', lecture_name = lecture_name',
             photo_file_id = photo_file_id', status = lit ''submitted'', created_at = None\<rparr>
      in (s\<lparr>complaint_counter := counter,
            complaint_store := (complaint_store s)(complaint_id \<mapsto> complaint_data)\<rparr>,
          complaint_id))"

definition update_complaint_status :: "bot_state \<Rightarrow> str \<Rightarrow> str \<Rightarrow> bot_state \<times> bool" where
  "update_complaint_status s complaint_id new_status =
     (case complaint_store s complaint_id of
        Some c \<Rightarrow>
          (s\<lparr>complaint_store := (complaint_store s)(complaint_id \<mapsto> c\<lparr>status := new_status\<rparr>)\<rparr>,
           True)
      | None \<Rightarrow> (s, False))"

definition get_complaint :: "bot_state \<Rightarrow> str \<Rightarrow> complaint option" where
  "get_complaint s complaint_id = complaint_store s complaint_id"

text \<open>\<^verbatim>\<open>complaint_data['username'] or "No username"\<close>: an absent and an empty name both
  give the default.\<close>

definition format_complaint_message :: "complaint \<Rightarrow> message_text" where
  "format_complaint_message complaint_data =
     (let name = (case username complaint_data of
                    None \<Rightarrow> lit ''No username''
                  | Some n \<Rightarrow> if n = [] then lit ''No username'' else n)
      in ComplaintText (user_id complaint_data) name (batch complaint_data)
           (subject complaint_data) (lecture_name complaint_data) (status complaint_data)
           (cid complaint_data))"

text \<open>The privileged identifier \<^verbatim>\<open>ADMIN_CHAT_ID\<close> is read from the environment; it is a
  parameter \<open>admin\<close> of every function that uses it.\<close>

definition is_admin :: "int \<Rightarrow> int \<Rightarrow> bool" where
  "is_admin admin user_id' = (user_id' = admin)"

section \<open>Keyboards\<close>

definition get_batch_keyboard :: keyboard where
  "get_batch_keyboard =
     map (\<lambda>b. [(b, lit ''batch_'' @ replace (lit '' '') (lit ''_'') b)]) BATCHES"

definition get_subject_keyboard :: keyboard where
  "get_subject_keyboard =
     map (\<lambda>b. [(b, lit ''subject_'' @ replace (lit '' '') (lit ''_'') b)]) SUBJECTS"

text \<open>The loop of \<^verbatim>\<open>get_status_keyboard\<close>: \<open>i\<close> is the index, \<open>row\<close> the row being
  filled and \<open>keyboard\<close> the rows finished so far.\<close>

fun status_rows ::
  "str \<Rightarrow> nat \<Rightarrow> str list \<Rightarrow> (str \<times> str) list \<Rightarrow> keyboard \<Rightarrow> keyboard" where
  "status_rows complaint_id i [] row keyboard =
     (if row \<noteq> [] then keyboard @ [row] else keyboard)"
| "status_rows complaint_id i (st # rest) row keyboard =
     (let row' = row @ [(st, lit ''status_'' @ complaint_id @ lit ''_'' @ lower st)]
      in if (i + 1) mod 2 = 0
         then status_rows complaint_id (i + 1) rest [] (keyboard @ [row'])
         else status_rows complaint_id (i + 1) rest row' keyboard)"

definition get_status_keyboard :: "str \<Rightarrow> keyboard" where
  "get_status_keyboard complaint_id = status_rows complaint_id 0 STATUS_OPTIONS [] []"

section \<open>Handlers\<close>

text \<open>
  A conversation handler gives the new globals, how it ended (the state it returned to
  the library, or that it raised) and the calls it made on the gateway, in order.  The
  last call of a handler that raised is the one that raised.
\<close>

type_synonym handled = "bot_state \<times> conv_state completion \<times> call list"

definition start_command :: "gateway \<Rightarrow> bot_state \<Rightarrow> user \<Rightarrow> handled" where
  "start_command gw s u =
     (let s' = clear_user_data s (uid u);
          welcome = ReplyText (WelcomeText (first_name u)) (Some get_batch_keyboard)
      in if gw welcome \<noteq> Returned then (s', Raises, [welcome])
         else (s', Returns BATCH_SELECTION, [welcome]))"

definition batch_selection_handler :: "gateway \<Rightarrow> bot_state \<Rightarrow> user \<Rightarrow> str \<Rightarrow> handled" where
  "batch_selection_handler gw s u data =
     (let ack = Answer None False
      in if gw ack \<noteq> Returned then (s, Raises, [ack])
         else if data = lit ''restart''
         then (let again = ReplyText StartingOverText (Some get_batch_keyboard)
               in if gw again \<noteq> Returned then (s, Raises, [ack, again])
                  else (s, Returns BATCH_SELECTION, [ack, again]))
         else if startswith data (lit ''batch_'')
         then (let b = replace (lit ''_'') (lit '' '') (replace (lit ''batch_'') [] data);
                   s' = store_user_data s (uid u) ''batch'' b;
                   selected = ReplyText (BatchSelectedText b) (Some get_subject_keyboard)
               in if gw selected \<noteq> Returned then (s', Raises, [ack, selected])
                  else (s', Returns SUBJECT_SELECTION, [ack, selected]))
         else (s, Returns BATCH_SELECTION, [ack]))"

definition subject_selection_handler :: "gateway \<Rightarrow> bot_state \<Rightarrow> user \<Rightarrow> str \<Rightarrow> handled" where
  "subject_selection_handler gw s u data =
     (let ack = Answer None False
      in if gw ack \<noteq> Returned then (s, Raises, [ack])
         else if startswith data (lit ''subject_'')
         then (let sb = replace (lit ''_'') (lit '' '') (replace (lit ''subject_'') [] data);
                   s' = store_user_data s (uid u) ''subject'' sb;
                   user_data = get_user_data s' (uid u);
                   selected = ReplyText (SubjectSelectedText sb (user_data ''batch'')) None
               in if gw selected \<noteq> Returned then (s', Raises, [ack, selected])
                  else (s', Returns LECTURE_NAME_INPUT, [ack, selected]))
         else (s, Returns SUBJECT_SELECTION, [ack]))"

definition lecture_name_handler :: "gateway \<Rightarrow> bot_state \<Rightarrow> user \<Rightarrow> str \<Rightarrow> handled" where
  "lecture_name_handler gw s u msg =
     (let ln = strip msg
      in if ln = []
         then (let again = ReplyText InvalidLectureNameText None
               in if gw again \<noteq> Returned then (s, Raises, [again])
                  else (s, Returns LECTURE_NAME_INPUT, [again]))
         else (let s' = store_user_data s (uid u) ''lecture_name'' ln;
                   user_data = get_user_data s' (uid u);
                   summary = ReplyText
                     (LectureSavedText ln (user_data ''batch'') (user_data ''subject'')) None
               in if gw summary \<noteq> Returned then (s', Raises, [summary])
                  else (s', Returns SCREENSHOT_UPLOAD, [summary])))"

text \<open>\<^verbatim>\<open>send_complaint_to_admin\<close>: both calls are inside the \<^verbatim>\<open>try\<close> block, so the
  second one is made only when the first returned; any exception is logged, and the
  function returns in every case.\<close>

definition send_complaint_to_admin :: "int \<Rightarrow> gateway \<Rightarrow> bot_state \<Rightarrow> str \<Rightarrow> call list" where
  "send_complaint_to_admin admin gw s complaint_id =
     (case get_complaint s complaint_id of
        None \<Rightarrow> []
      | Some complaint_data \<Rightarrow>
          (let photo_call = SendPhoto admin (photo_file_id complaint_data)
           in if gw photo_call \<noteq> Returned then [photo_call]
              else [photo_call,
                    SendMessage admin (format_complaint_message complaint_data)
                      (Some (get_status_keyboard complaint_id))]))"

text \<open>\<open>photo\<close> is \<^verbatim>\<open>update.message.photo\<close>, empty for a message without a photo.  The
  confirmation to the user is outside any \<^verbatim>\<open>try\<close> block and comes after the complaint
  was created and its id stored in the draft.\<close>

definition screenshot_handler ::
  "int \<Rightarrow> gateway \<Rightarrow> bot_state \<Rightarrow> user \<Rightarrow> photo_size list \<Rightarrow> handled" where
  "screenshot_handler admin gw s u photo =
     (if photo = []
      then (let again = ReplyText SendImageText None
            in if gw again \<noteq> Returned then (s, Raises, [again])
               else (s, Returns SCREENSHOT_UPLOAD, [again]))
      else (let pid = file_id (last photo);
                user_data = get_user_data s (uid u)
            in case create_complaint s (uid u) (user_name u) (user_data ''batch'')
                      (user_data ''subject'') (user_data ''lecture_name'') pid of
                 (s1, complaint_id) \<Rightarrow>
                   (let s2 = store_user_data s1 (uid u) ''complaint_id'' complaint_id;
                        confirmation = ReplyText (ComplaintSubmittedText complaint_id) None
                    in if gw confirmation \<noteq> Returned then (s2, Raises, [confirmation])
                       else (clear_user_data s2 (uid u), Returns END,
                             confirmation # send_complaint_to_admin admin gw s2 complaint_id))))"

definition cancel_handler :: "gateway \<Rightarrow> bot_state \<Rightarrow> user \<Rightarrow> handled" where
  "cancel_handler gw s u =
     (let s' = clear_user_data s (uid u);
          cancelled = ReplyText CancelledText None
      in if gw cancelled \<noteq> Returned then (s', Raises, [cancelled])
         else (s', Returns END, [cancelled]))"

text \<open>The two handlers outside the conversation return nothing, and the application only
  logs an exception: they give the new globals and the calls they made.\<close>

definition unknown_handler :: "bot_state \<Rightarrow> bot_state \<times> call list" where
  "unknown_handler s = (s, [ReplyText UnknownCommandText None])"

text \<open>
  The inner \<^verbatim>\<open>try\<close> of \<^verbatim>\<open>admin_status_handler\<close>, run after the submitter was
  notified: \<open>done\<close> are the calls made so far, \<open>failed\<close> is the reply of the outer
  \<^verbatim>\<open>except\<close> clause.  Formatting an absent complaint raises, which the outer clause
  catches too.
\<close>

definition refresh_admin_message ::
  "gateway \<Rightarrow> bot_state \<Rightarrow> str \<Rightarrow> str \<Rightarrow> call list \<Rightarrow> call \<Rightarrow> bot_state \<times> call list" where
  "refresh_admin_message gw s complaint_id new_status done failed =
     (case get_complaint s complaint_id of
        None \<Rightarrow> (s, done @ [failed])
      | Some updated_complaint \<Rightarrow>
          (let edit = EditMessageText (format_complaint_message updated_complaint)
                        (Some (get_status_keyboard complaint_id));
               notified = ReplyText (StatusUpdatedNotifiedText new_status) None
           in case gw edit of
                Returned \<Rightarrow> (s, done @ [edit])
              | BadRequest e \<Rightarrow>
                  if contains e (lit ''Message is not modified'') then (s, done @ [edit])
                  else if gw notified = Returned then (s, done @ [edit, notified])
                  else (s, done @ [edit, notified, failed])
              | OtherError \<Rightarrow> (s, done @ [edit, failed])))"

text \<open>
  \<^verbatim>\<open>admin_status_handler\<close>.  \<open>parse_status_data\<close> is its reading of the callback
  data: the parts between the first and the last are joined again to the complaint
  id, the last part is the new status; \<open>None\<close> when the data does not start with
  \<^verbatim>\<open>status_\<close> or has fewer than three parts.  The acknowledgement of the query is
  outside any \<^verbatim>\<open>try\<close> block.  The notification of the submitter, the refresh of the
  admin's message and the reply after a failed refresh are inside the outer \<^verbatim>\<open>try\<close>;
  the refresh is inside the inner one, which catches \<^verbatim>\<open>BadRequest\<close> only.
\<close>

definition parse_status_data :: "str \<Rightarrow> (str \<times> str) option" where
  "parse_status_data data =
     (if startswith data (lit ''status_'')
      then (let parts = split 95 data
            in if 3 \<le> length parts
               then Some (join (lit ''_'') (butlast (tl parts)), last parts) else None)
      else None)"

definition admin_status_handler ::
  "int \<Rightarrow> gateway \<Rightarrow> bot_state \<Rightarrow> user \<Rightarrow> str \<Rightarrow> bot_state \<times> call list" where
  "admin_status_handler admin gw s u data =
     (if \<not> is_admin admin (uid u)
      then (s, [Answer (Some NotAuthorizedText) True])
      else if gw (Answer None False) \<noteq> Returned then (s, [Answer None False])
      else (case parse_status_data data of
              None \<Rightarrow> (s, [Answer None False])
            | Some (complaint_id, new_status) \<Rightarrow>
                (case get_complaint s complaint_id of
                   None \<Rightarrow> (s, [Answer None False, ReplyText ComplaintNotFoundText None])
                 | Some complaint_data \<Rightarrow>
                     (let s' = fst (update_complaint_status s complaint_id new_status);
                          notify = SendMessage (user_id complaint_data)
                                     (StatusChangedText complaint_id new_status
                                        (subject complaint_data) (lecture_name complaint_data))
                                     None;
                          failed = ReplyText (StatusUpdatedNotNotifiedText new_status) None
                      in if gw notify \<noteq> Returned
                         then (s', [Answer None False, notify, failed])
                         else refresh_admin_message gw s' complaint_id new_status
                                [Answer None False, notify] failed))))"

section \<open>Dispatch\<close>

text \<open>
  The handlers registered in \<^verbatim>\<open>main\<close>.  A callback pattern is matched at the start of
  the data; \<^verbatim>\<open>filters.TEXT\<close> holds for a message with a non-empty text that is not a
  command, \<^verbatim>\<open>filters.PHOTO\<close> for one with a non-empty list of sizes.  The library
  compares the lowercased name of a command.
\<close>

fun is_command :: "update \<Rightarrow> str \<Rightarrow> bool" where
  "is_command (Command ch u c) name = (lower c = name)"
| "is_command upd name = False"

text \<open>The handlers listed under \<^verbatim>\<open>states\<close>, tried in order; \<open>None\<close> when none of them
  accepts the update.\<close>

fun state_handlers ::
  "int \<Rightarrow> gateway \<Rightarrow> bot_state \<Rightarrow> conv_state \<Rightarrow> update \<Rightarrow> handled option" where
  "state_handlers admin gw s BATCH_SELECTION (CallbackQuery ch u d) =
     (if startswith d (lit ''batch_'') \<or> startswith d (lit ''restart'')
      then Some (batch_selection_handler gw s u d) else None)"
| "state_handlers admin gw s SUBJECT_SELECTION (CallbackQuery ch u d) =
     (if startswith d (lit ''subject_'') then Some (subject_selection_handler gw s u d)
      else None)"
| "state_handlers admin gw s LECTURE_NAME_INPUT (TextMessage ch u t) =
     (if t \<noteq> [] then Some (lecture_name_handler gw s u t) else None)"
| "state_handlers admin gw s SCREENSHOT_UPLOAD (PhotoMessage ch u p) =
     (if p \<noteq> [] then Some (screenshot_handler admin gw s u p) else None)"
| "state_handlers admin gw s SCREENSHOT_UPLOAD (TextMessage ch u t) =
     (if t \<noteq> [] then Some (screenshot_handler admin gw s u []) else None)"
| "state_handlers admin gw s st upd = None"

text \<open>The key under which the library keeps the conversation an update belongs to.\<close>

definition conversation_key :: "update \<Rightarrow> conv_key" where
  "conversation_key upd = (effective_chat upd, uid (effective_user upd))"

text \<open>
  The \<^verbatim>\<open>ConversationHandler\<close>: with \<^verbatim>\<open>allow_reentry\<close> the entry point is tried first in
  every state, then the handlers of the state of the conversation, then the fallbacks.
\<close>

definition conversation_handler ::
  "int \<Rightarrow> gateway \<Rightarrow> bot_state \<Rightarrow> update \<Rightarrow> handled option" where
  "conversation_handler admin gw s upd =
     (let u = effective_user upd
      in if is_command upd (lit ''start'') then Some (start_command gw s u)
         else (case conversations s (conversation_key upd) of
                 None \<Rightarrow> None
               | Some st \<Rightarrow>
                   (case state_handlers admin gw s st upd of
                      Some r \<Rightarrow> Some r
                    | None \<Rightarrow>
                        if is_command upd (lit ''cancel'') then Some (cancel_handler gw s u)
                        else None)))"

text \<open>The library records the state a handler returned; \<open>END\<close> ends the conversation.
  After a handler that raised, the conversation is as it was.\<close>

definition set_conversation :: "bot_state \<Rightarrow> conv_key \<Rightarrow> conv_state completion \<Rightarrow> bot_state" where
  "set_conversation s key r =
     (case r of
        Raises \<Rightarrow> s
      | Returns st \<Rightarrow>
          if st = END then s\<lparr>conversations := (conversations s)(key := None)\<rparr>
          else s\<lparr>conversations := (conversations s)(key \<mapsto> st)\<rparr>)"

text \<open>The application: the first handler that accepts the update handles it.\<close>

definition handle_update :: "int \<Rightarrow> gateway \<Rightarrow> bot_state \<Rightarrow> update \<Rightarrow> bot_state \<times> call list" where
  "handle_update admin gw s upd =
     (case conversation_handler admin gw s upd of
        Some (s', r, calls) \<Rightarrow> (set_conversation s' (conversation_key upd) r, calls)
      | None \<Rightarrow>
          (case upd of
             CallbackQuery ch u d \<Rightarrow>
               if startswith d (lit ''status_'') then admin_status_handler admin gw s u d
               else (s, [])
           | Command ch u c \<Rightarrow> unknown_handler s
           | _ \<Rightarrow> (s, [])))"

text \<open>A run of the process: the updates in the order they arrive, each with the
  behaviour of the gateway while it is handled.\<close>

fun run :: "int \<Rightarrow> bot_state \<Rightarrow> (gateway \<times> update) list \<Rightarrow> bot_state" where
  "run admin s [] = s"
| "run admin s ((gw, upd) # rest) = run admin (fst (handle_update admin gw s upd)) rest"

section \<open>Notions used in the properties\<close>

text \<open>The calls made during a run, and the complaint ids that the confirmations sent to
  submitters report: the values returned by \<^verbatim>\<open>create_complaint\<close>, in the order of the
  calls.\<close>

fun run_calls :: "int \<Rightarrow> bot_state \<Rightarrow> (gateway \<times> update) list \<Rightarrow> call list" where
  "run_calls admin s [] = []"
| "run_calls admin s ((gw, upd) # rest) =
     snd (handle_update admin gw s upd) @ run_calls admin (fst (handle_update admin gw s upd)) rest"

fun submitted_id :: "call \<Rightarrow> str option" where
  "submitted_id (ReplyText (ComplaintSubmittedText c) k) = Some c"
| "submitted_id other = None"

definition issued_ids :: "call list \<Rightarrow> str list" where
  "issued_ids calls = List.map_filter submitted_id calls"

text \<open>A draft is filled in order: no field is set while the one before it is unset.\<close>

definition draft_ordered :: "(string \<rightharpoonup> str) \<Rightarrow> bool" where
  "draft_ordered d =
     ((d ''subject'' \<noteq> None \<longrightarrow> d ''batch'' \<noteq> None)
      \<and> (d ''lecture_name'' \<noteq> None \<longrightarrow> d ''subject'' \<noteq> None))"







text \<open>What the step of a conversation says about the draft of its user: the fields of
  the steps before it are set.\<close>

fun draft_fits :: "conv_state option \<Rightarrow> (string \<rightharpoonup> str) \<Rightarrow> bool" where
  "draft_fits (Some SUBJECT_SELECTION) d = (d ''batch'' \<noteq> None)"
| "draft_fits (Some LECTURE_NAME_INPUT) d = (d ''batch'' \<noteq> None \<and> d ''subject'' \<noteq> None)"
| "draft_fits (Some SCREENSHOT_UPLOAD) d =
     (d ''batch'' \<noteq> None \<and> d ''subject'' \<noteq> None \<and> d ''lecture_name'' \<noteq> None)"
| "draft_fits st d = True"

definition drafts_fit :: "(int \<Rightarrow> int) \<Rightarrow> bot_state \<Rightarrow> bool" where
  "drafts_fit home s =
     ((\<forall>ch u. conversations s (ch, u) \<noteq> None \<longrightarrow> ch = home u)
      \<and> (\<forall>u. draft_ordered (get_user_data s u)
             \<and> draft_fits (conversations s (home u, u)) (get_user_data s u)))"

text \<open>Every key of the complaint store was built from a value the counter has had.\<close>

definition ids_issued :: "bot_state \<Rightarrow> bool" where
  "ids_issued s =
     (\<forall>k. complaint_store s k \<noteq> None \<longrightarrow>
        (\<exists>n. n \<le> complaint_counter s \<and> k = lit ''complaint_'' @ str_int n))"

text \<open>A status callback of the privileged user that carries a token of the status
  enumeration; every other update counts as checked.\<close>

fun status_checked :: "int \<Rightarrow> update \<Rightarrow> bool" where
  "status_checked admin (CallbackQuery ch u d) =
     (case parse_status_data d of
        None \<Rightarrow> True
      | Some (c, t) \<Rightarrow> is_admin admin (uid u) \<longrightarrow> t \<in> set status_enum)"
| "status_checked admin upd = True"

definition statuses_valid :: "bot_state \<Rightarrow> bool" where
  "statuses_valid s =
     (\<forall>k c. complaint_store s k = Some c \<longrightarrow> status c \<in> set status_enum)"

section \<open>Sample runs\<close>

text \<open>The default of \<^verbatim>\<open>ADMIN_CHAT_ID\<close>, a submitter in her private chat (whose id is
  that of the user) and in a group, the reviewer, three gateways and the scenario of a
  complete submission, with the globals it leaves.\<close>

definition DEFAULT_ADMIN_CHAT_ID :: int where
  "DEFAULT_ADMIN_CHAT_ID = 5915871770"

definition alice :: user where
  "alice = \<lparr>uid = 42, user_name = Some (lit ''alice''), first_name = lit ''Alice''\<rparr>"

definition reviewer :: user where
  "reviewer = \<lparr>uid = 5915871770, user_name = None, first_name = lit ''Admin''\<rparr>"

definition private_chat :: int where
  "private_chat = 42"

definition group_chat :: int where
  "group_chat = - 1001"

definition admin_chat :: int where
  "admin_chat = 5915871770"

definition always_returns :: gateway where
  "always_returns = (\<lambda>c. Returned)"

definition submitter_unreachable :: gateway where
  "submitter_unreachable = (\<lambda>c. case c of SendMessage chat m k \<Rightarrow> OtherError | _ \<Rightarrow> Returned)"

definition replies_fail :: gateway where
  "replies_fail = (\<lambda>c. case c of ReplyText m k \<Rightarrow> OtherError | _ \<Rightarrow> Returned)"

definition example_photo :: "photo_size list" where
  "example_photo =
     [\<lparr>file_id = lit ''small'', width = 90, height = 60\<rparr>,
      \<lparr>file_id = lit ''large'', width = 1280, height = 853\<rparr>]"


definition example_draft :: "(gateway \<times> update) list" where
  "example_draft =
     [(always_returns, Command private_chat alice (lit ''start'')),
      (always_returns, CallbackQuery private_chat alice (lit ''batch_master_quest_2026'')),
      (always_returns, CallbackQuery private_chat alice (lit ''subject_Quant'')),
      (always_returns, TextMessage private_chat alice (lit ''Linear Equations Lecture 3''))]"

definition example_submission :: "(gateway \<times> update) list" where
  "example_submission =
     example_draft @ [(always_returns, PhotoMessage private_chat alice example_photo)]"

definition example_complaint :: complaint where
  "example_complaint =
     \<lparr>cid = lit ''complaint_1'', user_id = 42, username = Some (lit ''alice''),
      batch = Some (lit ''master quest 2026''), subject = Some (lit ''Quant''),
      lecture_name = Some (lit ''Linear Equations Lecture 3''),
      photo_file_id = lit ''large'', status = lit ''submitted'', created_at = None\<rparr>"


definition awaiting_lecture_state :: bot_state where
  "awaiting_lecture_state =
     \<lparr>user_data_store =
        [42 \<mapsto> [''batch'' \<mapsto> lit ''master quest 2026'', ''subject'' \<mapsto> lit ''Quant'']],
      complaint_store = Map.empty, complaint_counter = 0,
      conversations = [(42, 42) \<mapsto> LECTURE_NAME_INPUT]\<rparr>"

definition awaiting_photo_state :: bot_state where
  "awaiting_photo_state =
     \<lparr>user_data_store =
        [42 \<mapsto> [''batch'' \<mapsto> lit ''master quest 2026'', ''subject'' \<mapsto> lit ''Quant'',
                 ''lecture_name'' \<mapsto> lit ''Linear Equations Lecture 3'']],
      complaint_store = Map.empty, complaint_counter = 0,
      conversations = [(42, 42) \<mapsto> SCREENSHOT_UPLOAD]\<rparr>"

definition submitted_state :: bot_state where
  "submitted_state =
     \<lparr>user_data_store = Map.empty,
      complaint_store = [lit ''complaint_1'' \<mapsto> example_complaint],
      complaint_counter = 1, conversations = Map.empty\<rparr>"



section \<open>Facts about the string operations\<close>

declare replace.simps [simp del]

declare digits.simps [simp del]

lemma lit_codes:
  "lit ''_'' = [95]"
  "lit '' '' = [32]"
  "lit ''status_'' = [115, 116, 97, 116, 117, 115, 95]"
  "lit ''batch_'' = [98, 97, 116, 99, 104, 95]"
  "lit ''subject_'' = [115, 117, 98, 106, 101, 99, 116, 95]"
  "lit ''restart'' = [114, 101, 115, 116, 97, 114, 116]"
  "lit ''start'' = [115, 116, 97, 114, 116]"
  "lit ''cancel'' = [99, 97, 110, 99, 101, 108]"
  "lit ''complaint_'' = [99, 111, 109, 112, 108, 97, 105, 110, 116, 95]"
  by code_simp+

lemma lit_eq_iff [simp]: "lit a = lit b \<longleftrightarrow> a = b"
  by (simp add: lit_def inj_map_eq_map [OF inj_of_char])

lemma lit_Nil [simp]: "lit [] = []"
  by (simp add: lit_def)

lemma lit_eq_Nil [simp]: "lit a = [] \<longleftrightarrow> a = []"
  by (simp add: lit_def)

lemma length_lit [simp]: "length (lit a) = length a"
  by (simp add: lit_def)

lemma startswith_Nil [simp]: "startswith d [] = True"
  by (simp add: startswith_def)

lemma startswith_nth: "startswith d p \<Longrightarrow> i < length p \<Longrightarrow> d ! i = p ! i"
  unfolding startswith_def by (metis nth_take)

lemma startswith_append: "startswith (p @ r) p"
  by (simp add: startswith_def)

lemma split_not_Nil: "split c s \<noteq> []"
  by (induction s) (auto split: list.splits)

lemma join_split: "join [c] (split c s) = s"
proof (induction s)
  case Nil
  then show ?case by simp
next
  case (Cons x xs)
  obtain p ps where sp: "split c xs = p # ps"
    using split_not_Nil [of c xs] by (cases "split c xs") auto
  show ?case
  proof (cases "x = c")
    case True
    with Cons sp show ?thesis by simp
  next
    case False
    with Cons sp show ?thesis by (cases ps) auto
  qed
qed

lemma split_no_sep: "c \<notin> set t \<Longrightarrow> split c t = [t]"
  by (induction t) auto

lemma split_sep: "split c (a @ c # b) = split c a @ split c b"
proof (induction a)
  case Nil
  then show ?case by simp
next
  case (Cons x xs)
  obtain p ps where sp: "split c xs = p # ps"
    using split_not_Nil [of c xs] by (cases "split c xs") auto
  with Cons show ?case by auto
qed

lemma digit_val_digit_char: "digit_val (digit_char d) = d"
  by (simp add: digit_val_def digit_char_def)

lemma nat_of_digits_snoc: "nat_of_digits (s @ [c]) = 10 * nat_of_digits s + digit_val c"
  by (simp add: nat_of_digits_def)

lemma nat_of_digits_digits: "nat_of_digits (digits n) = n"
proof (induction n rule: digits.induct)
  case (1 n)
  show ?case
  proof (cases "n < 10")
    case True
    then show ?thesis
      by (subst digits.simps) (simp add: nat_of_digits_def digit_val_digit_char)
  next
    case False
    with 1 show ?thesis
      by (subst digits.simps) (simp add: nat_of_digits_snoc digit_val_digit_char)
  qed
qed

lemma hd_digits: "\<exists>d r. digits n = digit_char d # r"
proof (induction n rule: digits.induct)
  case (1 n)
  show ?case
  proof (cases "n < 10")
    case True
    then show ?thesis by (subst digits.simps) auto
  next
    case False
    with 1 obtain d r where "digits (n div 10) = digit_char d # r" by blast
    with False show ?thesis by (subst digits.simps) auto
  qed
qed

lemma int_of_str_str_int: "int_of_str (str_int i) = i"
proof -
  obtain d r where d: "digits (nat i) = digit_char d # r" using hd_digits by blast
  have m: "digit_char d \<noteq> 45" by (simp add: digit_char_def)
  show ?thesis
  proof (cases "i < 0")
    case True
    then show ?thesis by (simp add: str_int_def int_of_str_def nat_of_digits_digits)
  next
    case False
    with d m nat_of_digits_digits [of "nat i"] show ?thesis
      by (simp add: str_int_def int_of_str_def)
  qed
qed

lemma parse_status_data_built:
  assumes "95 \<notin> set t"
  shows "parse_status_data (lit ''status_'' @ c @ lit ''_'' @ t) = Some (c, t)"
proof -
  have l: "lit ''status_'' = lit ''status'' @ [95]" "lit ''_'' = [95]"
    by (simp_all add: lit_def)
  have n: "95 \<notin> set (lit ''status'')" by code_simp
  have sp: "split 95 (lit ''status_'' @ c @ lit ''_'' @ t) = lit ''status'' # split 95 c @ [t]"
    using split_sep [of 95 "lit ''status''" "c @ 95 # t"]
          split_sep [of 95 c t] split_no_sep [OF assms] split_no_sep [OF n]
    by (simp add: l)
  have len: "3 \<le> length (lit ''status'' # split 95 c @ [t])"
    using split_not_Nil [of 95 c] by (cases "split 95 c") auto
  have sw: "startswith (lit ''status_'' @ c @ lit ''_'' @ t) (lit ''status_'')"
    by (rule startswith_append)
  have "join (lit ''_'') (split 95 c) = c"
    using join_split [of 95 c] by (simp add: l)
  with sp len sw show ?thesis
    unfolding parse_status_data_def by (simp add: Let_def)
qed

lemma lower_STATUS_OPTIONS:
  "map lower STATUS_OPTIONS = map lit [''send'', ''seen'', ''approved'', ''resolved'']"
  by code_simp

lemma lower_status_no_sep:
  assumes "st \<in> set STATUS_OPTIONS"
  shows "95 \<notin> set (lower st)"
proof -
  have "list_all (\<lambda>x. 95 \<notin> set x) (map lower STATUS_OPTIONS)" by code_simp
  with assms show ?thesis by (simp add: list_all_iff)
qed

lemma status_keyboard_buttons:
  "concat (get_status_keyboard c)
     = map (\<lambda>st. (st, lit ''status_'' @ c @ lit ''_'' @ lower st)) STATUS_OPTIONS"
  by (simp add: get_status_keyboard_def STATUS_OPTIONS_def)

lemma lower_examples:
  "lower (lit ''Seen'') = lit ''seen''"
  "lower (lit ''Resolved'') = lit ''resolved''"
  "lower (lit ''start'') = lit ''start''"
  "lower (lit ''cancel'') = lit ''cancel''"
  by code_simp+

lemma str_int_examples:
  "str_int 1 = lit ''1''"
  "str_int 2 = lit ''2''"
  by code_simp+

lemma strip_empty_iff: "strip t = [] \<longleftrightarrow> (\<forall>c \<in> set t. isspace c)"
proof -
  define d where "d = dropWhile isspace t"
  have "(\<forall>x \<in> set d. isspace x) \<longleftrightarrow> d = []"
  proof (cases d)
    case Nil
    then show ?thesis by simp
  next
    case (Cons a r)
    then have "\<not> isspace a" using hd_dropWhile [of isspace t] by (simp add: d_def)
    with Cons show ?thesis by auto
  qed
  then have "strip t = [] \<longleftrightarrow> d = []"
    by (simp add: strip_def dropWhile_eq_Nil_conv d_def)
  then show ?thesis by (simp add: dropWhile_eq_Nil_conv d_def)
qed

section \<open>Facts about the dispatch\<close>

lemma set_conversation_same:
  "conversations s k = Some st \<Longrightarrow> st \<noteq> END \<Longrightarrow> set_conversation s k (Returns st) = s"
  by (simp add: set_conversation_def fun_upd_idem)

lemma set_conversation_Raises [simp]: "set_conversation s k Raises = s"
  by (simp add: set_conversation_def)

lemma parse_status_data_prefix:
  "parse_status_data data = Some (c, t) \<Longrightarrow> startswith data (lit ''status_'')"
  unfolding parse_status_data_def by (simp split: if_splits)

lemma status_not_other:
  assumes "startswith d (lit ''status_'')"
  shows "\<not> startswith d (lit ''batch_'')" "\<not> startswith d (lit ''restart'')"
    "\<not> startswith d (lit ''subject_'')"
proof -
  have a: "d ! 0 = 115" "d ! 1 = 116"
    using startswith_nth [OF assms, of 0] startswith_nth [OF assms, of 1]
    by (simp_all add: lit_codes)
  show "\<not> startswith d (lit ''batch_'')"
  proof
    assume "startswith d (lit ''batch_'')"
    from startswith_nth [OF this, of 0] a show False by (simp add: lit_codes)
  qed
  show "\<not> startswith d (lit ''restart'')"
  proof
    assume "startswith d (lit ''restart'')"
    from startswith_nth [OF this, of 0] a show False by (simp add: lit_codes)
  qed
  show "\<not> startswith d (lit ''subject_'')"
  proof
    assume "startswith d (lit ''subject_'')"
    from startswith_nth [OF this, of 1] a show False by (simp add: lit_codes)
  qed
qed

lemma batch_not_restart: "startswith d (lit ''batch_'') \<Longrightarrow> d \<noteq> lit ''restart''"
  using startswith_nth [of d "lit ''batch_''" 0] by (auto simp add: lit_codes)

lemma status_not_conversation:
  assumes "startswith d (lit ''status_'')"
  shows "conversation_handler admin gw s (CallbackQuery ch u d) = None"
proof -
  have "state_handlers admin gw s st (CallbackQuery ch u d) = None" for st
    using status_not_other [OF assms] by (cases st) simp_all
  then show ?thesis
    by (simp add: conversation_handler_def split: option.splits)
qed

lemma handle_status_callback:
  "startswith d (lit ''status_'') \<Longrightarrow>
   handle_update admin gw s (CallbackQuery ch u d) = admin_status_handler admin gw s u d"
  by (simp add: handle_update_def status_not_conversation)

lemma issued_ids_Nil [simp]: "issued_ids [] = []"
  by (simp add: issued_ids_def List.map_filter_def)

lemma issued_ids_Cons [simp]:
  "issued_ids (c # cs) = (case submitted_id c of None \<Rightarrow> issued_ids cs | Some i \<Rightarrow> i # issued_ids cs)"
  by (simp add: issued_ids_def List.map_filter_def split: option.splits)

lemma issued_ids_append [simp]: "issued_ids (a @ b) = issued_ids a @ issued_ids b"
  by (simp add: issued_ids_def List.map_filter_def)

lemma conversation_handler_Some:
  assumes "conversation_handler admin gw s upd = Some r"
  obtains (on_start) ch u c where "upd = Command ch u c" "r = start_command gw s u"
  | (on_cancel) ch u c where "upd = Command ch u c" "r = cancel_handler gw s u"
  | (on_batch) ch u d where "upd = CallbackQuery ch u d"
      "conversations s (ch, uid u) = Some BATCH_SELECTION"
      "r = batch_selection_handler gw s u d"
  | (on_subject) ch u d where "upd = CallbackQuery ch u d"
      "conversations s (ch, uid u) = Some SUBJECT_SELECTION"
      "r = subject_selection_handler gw s u d"
  | (on_lecture) ch u t where "upd = TextMessage ch u t"
      "conversations s (ch, uid u) = Some LECTURE_NAME_INPUT"
      "r = lecture_name_handler gw s u t"
  | (on_photo) ch u p where "upd = PhotoMessage ch u p" "p \<noteq> []"
      "conversations s (ch, uid u) = Some SCREENSHOT_UPLOAD"
      "r = screenshot_handler admin gw s u p"
  | (on_nophoto) ch u t where "upd = TextMessage ch u t"
      "conversations s (ch, uid u) = Some SCREENSHOT_UPLOAD"
      "r = screenshot_handler admin gw s u []"
proof (cases "is_command upd (lit ''start'')")
  case True
  then obtain ch u c where "upd = Command ch u c" by (cases upd) auto
  with True assms on_start show ?thesis by (simp add: conversation_handler_def Let_def)
next
  case False
  with assms obtain st where st: "conversations s (conversation_key upd) = Some st"
    and r: "(case state_handlers admin gw s st upd of
               Some r \<Rightarrow> Some r
             | None \<Rightarrow> if is_command upd (lit ''cancel'')
                        then Some (cancel_handler gw s (effective_user upd)) else None)
            = Some r"
    by (auto simp: conversation_handler_def Let_def split: option.splits)
  show ?thesis
  proof (cases "state_handlers admin gw s st upd")
    case None
    with r have c: "is_command upd (lit ''cancel'')" by (simp split: if_splits)
    then obtain ch u c where "upd = Command ch u c" by (cases upd) auto
    with None r c on_cancel show ?thesis by simp
  next
    case (Some r')
    with r have "r' = r" by simp
    with Some st show ?thesis
      by (cases st; cases upd)
         (auto split: if_splits simp add: conversation_key_def
            intro: on_batch on_subject on_lecture on_photo on_nophoto)
  qed
qed

lemma clear_user_data_eq:
  "clear_user_data s v = s\<lparr>user_data_store := (user_data_store s)(v := None)\<rparr>"
proof (cases "v \<in> dom (user_data_store s)")
  case True
  then show ?thesis by (simp add: clear_user_data_def)
next
  case False
  then have "(user_data_store s)(v := None) = user_data_store s" by (auto simp: fun_upd_idem)
  with False show ?thesis by (simp add: clear_user_data_def)
qed

lemma store_user_data_eq:
  "store_user_data s v k x
     = s\<lparr>user_data_store := (user_data_store s)(v \<mapsto> (get_user_data s v)(k \<mapsto> x))\<rparr>"
  by (simp add: store_user_data_def get_user_data_def)

lemma handle_update_Some:
  "conversation_handler admin gw s upd = Some r \<Longrightarrow>
   handle_update admin gw s upd
     = (case r of (s1, cr, cs) \<Rightarrow> (set_conversation s1 (conversation_key upd) cr, cs))"
  by (simp add: handle_update_def)

lemma start_applied:
  "(case start_command gw s u of (s1, cr, cs) \<Rightarrow> (set_conversation s1 key cr, cs))
   = (s\<lparr>user_data_store := (user_data_store s)(uid u := None),
         conversations :=
           (if gw (ReplyText (WelcomeText (first_name u)) (Some get_batch_keyboard)) = Returned
            then (conversations s)(key \<mapsto> BATCH_SELECTION) else conversations s)\<rparr>,
      [ReplyText (WelcomeText (first_name u)) (Some get_batch_keyboard)])"
  by (simp add: start_command_def Let_def clear_user_data_eq set_conversation_def)

lemma cancel_applied:
  "(case cancel_handler gw s u of (s1, cr, cs) \<Rightarrow> (set_conversation s1 key cr, cs))
   = (s\<lparr>user_data_store := (user_data_store s)(uid u := None),
         conversations :=
           (if gw (ReplyText CancelledText None) = Returned
            then (conversations s)(key := None) else conversations s)\<rparr>,
      [ReplyText CancelledText None])"
  by (simp add: cancel_handler_def Let_def clear_user_data_eq set_conversation_def)

lemma batch_applied:
  assumes "startswith d (lit ''batch_'')" and "gw (Answer None False) = Returned"
  shows "(case batch_selection_handler gw s u d of
            (s1, cr, cs) \<Rightarrow> (set_conversation s1 key cr, cs))
   = (let b = replace (lit ''_'') (lit '' '') (replace (lit ''batch_'') [] d);
          selected = ReplyText (BatchSelectedText b) (Some get_subject_keyboard)
      in (s\<lparr>user_data_store := (user_data_store s)
               (uid u \<mapsto> (get_user_data s (uid u))(''batch'' \<mapsto> b)),
            conversations :=
              (if gw selected = Returned
               then (conversations s)(key \<mapsto> SUBJECT_SELECTION) else conversations s)\<rparr>,
          [Answer None False, selected]))"
  using assms batch_not_restart [OF assms(1)]
  by (simp add: batch_selection_handler_def Let_def store_user_data_eq set_conversation_def)

lemma batch_not_applied:
  assumes "\<not> startswith d (lit ''batch_'') \<or> gw (Answer None False) \<noteq> Returned"
    and "conversations s key = Some BATCH_SELECTION"
  shows "fst (case batch_selection_handler gw s u d of
            (s1, cr, cs) \<Rightarrow> (set_conversation s1 key cr, cs)) = s"
    and "issued_ids (snd (case batch_selection_handler gw s u d of
            (s1, cr, cs) \<Rightarrow> (set_conversation s1 key cr, cs))) = []"
  using assms
  by (auto simp add: batch_selection_handler_def Let_def set_conversation_same)

lemma subject_applied:
  assumes "startswith d (lit ''subject_'')" and "gw (Answer None False) = Returned"
  shows "(case subject_selection_handler gw s u d of
            (s1, cr, cs) \<Rightarrow> (set_conversation s1 key cr, cs))
   = (let sb = replace (lit ''_'') (lit '' '') (replace (lit ''subject_'') [] d);
          selected = ReplyText (SubjectSelectedText sb (get_user_data s (uid u) ''batch'')) None
      in (s\<lparr>user_data_store := (user_data_store s)
               (uid u \<mapsto> (get_user_data s (uid u))(''subject'' \<mapsto> sb)),
            conversations :=
              (if gw selected = Returned
               then (conversations s)(key \<mapsto> LECTURE_NAME_INPUT) else conversations s)\<rparr>,
          [Answer None False, selected]))"
  using assms
  by (simp add: subject_selection_handler_def Let_def store_user_data_eq set_conversation_def
      get_user_data_def)

lemma subject_not_applied:
  assumes "\<not> startswith d (lit ''subject_'') \<or> gw (Answer None False) \<noteq> Returned"
    and "conversations s key = Some SUBJECT_SELECTION"
  shows "fst (case subject_selection_handler gw s u d of
            (s1, cr, cs) \<Rightarrow> (set_conversation s1 key cr, cs)) = s"
    and "issued_ids (snd (case subject_selection_handler gw s u d of
            (s1, cr, cs) \<Rightarrow> (set_conversation s1 key cr, cs))) = []"
  using assms
  by (auto simp add: subject_selection_handler_def Let_def set_conversation_same)

lemma lecture_applied:
  assumes "strip t \<noteq> []"
  shows "(case lecture_name_handler gw s u t of
            (s1, cr, cs) \<Rightarrow> (set_conversation s1 key cr, cs))
   = (let summary = ReplyText (LectureSavedText (strip t) (get_user_data s (uid u) ''batch'')
                       (get_user_data s (uid u) ''subject'')) None
      in (s\<lparr>user_data_store := (user_data_store s)
               (uid u \<mapsto> (get_user_data s (uid u))(''lecture_name'' \<mapsto> strip t)),
            conversations :=
              (if gw summary = Returned
               then (conversations s)(key \<mapsto> SCREENSHOT_UPLOAD) else conversations s)\<rparr>,
          [summary]))"
  using assms
  by (simp add: lecture_name_handler_def Let_def store_user_data_eq set_conversation_def
      get_user_data_def)

lemma lecture_not_applied:
  assumes "strip t = []" and "conversations s key = Some LECTURE_NAME_INPUT"
  shows "(case lecture_name_handler gw s u t of
            (s1, cr, cs) \<Rightarrow> (set_conversation s1 key cr, cs))
         = (s, [ReplyText InvalidLectureNameText None])"
  using assms
  by (simp add: lecture_name_handler_def Let_def set_conversation_same)

lemma nophoto_applied:
  assumes "conversations s key = Some SCREENSHOT_UPLOAD"
  shows "(case screenshot_handler admin gw s u [] of
            (s1, cr, cs) \<Rightarrow> (set_conversation s1 key cr, cs))
         = (s, [ReplyText SendImageText None])"
  using assms
  by (simp add: screenshot_handler_def Let_def set_conversation_same)

lemma photo_applied:
  assumes "p \<noteq> []"
  shows "(case screenshot_handler admin gw s u p of
            (s1, cr, cs) \<Rightarrow> (set_conversation s1 key cr, cs))
   = (let new_id = lit ''complaint_'' @ str_int (complaint_counter s + 1);
          c = \<lparr>cid = new_id, user_id = uid u, username = user_name u,
               batch = get_user_data s (uid u) ''batch'',
               subject = get_user_data s (uid u) ''subject'',
               lecture_name = get_user_data s (uid u) ''lecture_name'',
               photo_file_id = file_id (last p), status = lit ''submitted'',
               created_at = None\<rparr>;
          confirmation = ReplyText (ComplaintSubmittedText new_id) None
      in if gw confirmation \<noteq> Returned
         then (s\<lparr>complaint_counter := complaint_counter s + 1,
                 complaint_store := (complaint_store s)(new_id \<mapsto> c),
                 user_data_store := (user_data_store s)
                   (uid u \<mapsto> (get_user_data s (uid u))(''complaint_id'' \<mapsto> new_id))\<rparr>,
               [confirmation])
         else (s\<lparr>complaint_counter := complaint_counter s + 1,
                 complaint_store := (complaint_store s)(new_id \<mapsto> c),
                 user_data_store := (user_data_store s)(uid u := None),
                 conversations := (conversations s)(key := None)\<rparr>,
               confirmation
               # SendPhoto admin (file_id (last p))
               # (if gw (SendPhoto admin (file_id (last p))) \<noteq> Returned then []
                  else [SendMessage admin (format_complaint_message c)
                          (Some (get_status_keyboard new_id))])))"
  using assms
  by (simp add: screenshot_handler_def create_complaint_def Let_def clear_user_data_eq
      store_user_data_eq send_complaint_to_admin_def get_complaint_def set_conversation_def
      get_user_data_def)

lemma refresh_admin_message_effect:
  "fst (refresh_admin_message gw s k t done (ReplyText (StatusUpdatedNotNotifiedText t) None)) = s
   \<and> issued_ids (snd (refresh_admin_message gw s k t done
                        (ReplyText (StatusUpdatedNotNotifiedText t) None))) = issued_ids done"
  by (simp add: refresh_admin_message_def Let_def split: option.splits outcome.splits)

lemma admin_status_handler_effect:
  obtains (same) "fst (admin_status_handler admin gw s u d) = s"
      "issued_ids (snd (admin_status_handler admin gw s u d)) = []"
  | (updated) k c t where "is_admin admin (uid u)" "gw (Answer None False) = Returned"
      "parse_status_data d = Some (k, t)" "complaint_store s k = Some c"
      "fst (admin_status_handler admin gw s u d)
         = s\<lparr>complaint_store := (complaint_store s)(k \<mapsto> c\<lparr>status := t\<rparr>)\<rparr>"
      "issued_ids (snd (admin_status_handler admin gw s u d)) = []"
proof (cases "is_admin admin (uid u) \<and> gw (Answer None False) = Returned")
  case False
  then show ?thesis by (intro same) (auto simp add: admin_status_handler_def)
next
  case adm: True
  show ?thesis
  proof (cases "parse_status_data d")
    case None
    with adm show ?thesis by (intro same) (simp_all add: admin_status_handler_def)
  next
    case (Some kt)
    obtain k t where kt: "kt = (k, t)" by (cases kt)
    show ?thesis
    proof (cases "complaint_store s k")
      case None
      with adm Some kt show ?thesis
        by (intro same) (simp_all add: admin_status_handler_def get_complaint_def)
    next
      case (Some c)
      with adm \<open>parse_status_data d = Some kt\<close> kt
      have "fst (admin_status_handler admin gw s u d)
              = s\<lparr>complaint_store := (complaint_store s)(k \<mapsto> c\<lparr>status := t\<rparr>)\<rparr>"
        and "issued_ids (snd (admin_status_handler admin gw s u d)) = []"
        by (simp_all add: admin_status_handler_def get_complaint_def update_complaint_status_def
            Let_def refresh_admin_message_effect)
      with adm \<open>parse_status_data d = Some kt\<close> kt Some show ?thesis
        by (intro updated [of k t c]) simp_all
    qed
  qed
qed

lemma handle_update_step:
  fixes admin gw s upd
  defines "s' \<equiv> fst (handle_update admin gw s upd)"
    and "calls \<equiv> snd (handle_update admin gw s upd)"
  obtains (ignored) "s' = s" "issued_ids calls = []"
  | (start) ch u c where "upd = Command ch u c" "issued_ids calls = []"
      "s' = s\<lparr>user_data_store := (user_data_store s)(uid u := None),
              conversations :=
                (if gw (ReplyText (WelcomeText (first_name u)) (Some get_batch_keyboard))
                      = Returned
                 then (conversations s)((ch, uid u) \<mapsto> BATCH_SELECTION)
                 else conversations s)\<rparr>"
  | (cancel) ch u c where "upd = Command ch u c" "issued_ids calls = []"
      "s' = s\<lparr>user_data_store := (user_data_store s)(uid u := None),
              conversations :=
                (if gw (ReplyText CancelledText None) = Returned
                 then (conversations s)((ch, uid u) := None) else conversations s)\<rparr>"
  | (batch) ch u d b where "upd = CallbackQuery ch u d" "issued_ids calls = []"
      "conversations s (ch, uid u) = Some BATCH_SELECTION" "startswith d (lit ''batch_'')"
      "gw (Answer None False) = Returned"
      "b = replace (lit ''_'') (lit '' '') (replace (lit ''batch_'') [] d)"
      "s' = s\<lparr>user_data_store := (user_data_store s)
                 (uid u \<mapsto> (get_user_data s (uid u))(''batch'' \<mapsto> b)),
              conversations :=
                (if gw (ReplyText (BatchSelectedText b) (Some get_subject_keyboard)) = Returned
                 then (conversations s)((ch, uid u) \<mapsto> SUBJECT_SELECTION)
                 else conversations s)\<rparr>"
  | (subject) ch u d sb where "upd = CallbackQuery ch u d" "issued_ids calls = []"
      "conversations s (ch, uid u) = Some SUBJECT_SELECTION" "startswith d (lit ''subject_'')"
      "gw (Answer None False) = Returned"
      "sb = replace (lit ''_'') (lit '' '') (replace (lit ''subject_'') [] d)"
      "s' = s\<lparr>user_data_store := (user_data_store s)
                 (uid u \<mapsto> (get_user_data s (uid u))(''subject'' \<mapsto> sb)),
              conversations :=
                (if gw (ReplyText (SubjectSelectedText sb (get_user_data s (uid u) ''batch''))
                          None) = Returned
                 then (conversations s)((ch, uid u) \<mapsto> LECTURE_NAME_INPUT)
                 else conversations s)\<rparr>"
  | (lecture) ch u t where "upd = TextMessage ch u t" "issued_ids calls = []"
      "conversations s (ch, uid u) = Some LECTURE_NAME_INPUT" "strip t \<noteq> []"
      "s' = s\<lparr>user_data_store := (user_data_store s)
                 (uid u \<mapsto> (get_user_data s (uid u))(''lecture_name'' \<mapsto> strip t)),
              conversations :=
                (if gw (ReplyText (LectureSavedText (strip t)
                          (get_user_data s (uid u) ''batch'')
                          (get_user_data s (uid u) ''subject'')) None) = Returned
                 then (conversations s)((ch, uid u) \<mapsto> SCREENSHOT_UPLOAD)
                 else conversations s)\<rparr>"
  | (photo) ch u p c where "upd = PhotoMessage ch u p" "p \<noteq> []"
      "conversations s (ch, uid u) = Some SCREENSHOT_UPLOAD"
      "c = \<lparr>cid = lit ''complaint_'' @ str_int (complaint_counter s + 1), user_id = uid u,
            username = user_name u,
            batch = get_user_data s (uid u) ''batch'',
            subject = get_user_data s (uid u) ''subject'',
            lecture_name = get_user_data s (uid u) ''lecture_name'',
            photo_file_id = file_id (last p), status = lit ''submitted'', created_at = None\<rparr>"
      "s' = s\<lparr>complaint_counter := complaint_counter s + 1,
              complaint_store := (complaint_store s)(cid c \<mapsto> c),
              user_data_store :=
                (if gw (ReplyText (ComplaintSubmittedText (cid c)) None) = Returned
                 then (user_data_store s)(uid u := None)
                 else (user_data_store s)
                        (uid u \<mapsto> (get_user_data s (uid u))(''complaint_id'' \<mapsto> cid c))),
              conversations :=
                (if gw (ReplyText (ComplaintSubmittedText (cid c)) None) = Returned
                 then (conversations s)((ch, uid u) := None) else conversations s)\<rparr>"
      "issued_ids calls = [cid c]"
  | (status) ch u d k c t where "upd = CallbackQuery ch u d" "issued_ids calls = []"
      "is_admin admin (uid u)" "parse_status_data d = Some (k, t)"
      "complaint_store s k = Some c"
      "s' = s\<lparr>complaint_store := (complaint_store s)(k \<mapsto> c\<lparr>status := t\<rparr>)\<rparr>"
proof (cases "conversation_handler admin gw s upd")
  case None
  show ?thesis
  proof (cases upd)
    case (CallbackQuery ch u d)
    show ?thesis
    proof (cases "startswith d (lit ''status_'')")
      case True
      with None CallbackQuery
      have h: "handle_update admin gw s upd = admin_status_handler admin gw s u d"
        by (simp add: handle_update_def)
      show ?thesis
      proof (cases rule: admin_status_handler_effect [of admin gw s u d])
        case same
        with h show ?thesis by (intro ignored) (simp_all add: s'_def calls_def)
      next
        case (updated k c t)
        with h CallbackQuery show ?thesis
          by (intro status [where ch = ch and u = u and d = d and k = k and c = c and t = t])
             (simp_all add: s'_def calls_def)
      qed
    next
      case False
      with None CallbackQuery show ?thesis
        by (intro ignored) (simp_all add: s'_def calls_def handle_update_def)
    qed
  qed (use None in \<open>(intro ignored, simp_all add: s'_def calls_def handle_update_def unknown_handler_def)+\<close>)
next
  case (Some r)
  then have h: "handle_update admin gw s upd
      = (case r of (s1, cr, cs) \<Rightarrow> (set_conversation s1 (conversation_key upd) cr, cs))"
    by (rule handle_update_Some)
  from Some show ?thesis
  proof (cases rule: conversation_handler_Some)
    case (on_start ch u c)
    with h show ?thesis
      by (intro start [of ch u c])
         (simp_all add: s'_def calls_def start_applied conversation_key_def)
  next
    case (on_cancel ch u c)
    with h show ?thesis
      by (intro cancel [of ch u c])
         (simp_all add: s'_def calls_def cancel_applied conversation_key_def)
  next
    case (on_batch ch u d)
    show ?thesis
    proof (cases "startswith d (lit ''batch_'') \<and> gw (Answer None False) = Returned")
      case True
      with on_batch h show ?thesis
        by (intro batch [of ch u d])
           (simp_all add: s'_def calls_def batch_applied conversation_key_def Let_def)
    next
      case False
      then have n: "\<not> startswith d (lit ''batch_'') \<or> gw (Answer None False) \<noteq> Returned"
        by blast
      from on_batch h batch_not_applied [where gw = gw and d = d and s = s and key = "(ch, uid u)" and u = u, OF n on_batch(2)] show ?thesis
        by (intro ignored) (simp_all add: s'_def calls_def conversation_key_def)
    qed
  next
    case (on_subject ch u d)
    show ?thesis
    proof (cases "startswith d (lit ''subject_'') \<and> gw (Answer None False) = Returned")
      case True
      with on_subject h show ?thesis
        by (intro subject [of ch u d])
           (simp_all add: s'_def calls_def subject_applied conversation_key_def Let_def)
    next
      case False
      then have n: "\<not> startswith d (lit ''subject_'') \<or> gw (Answer None False) \<noteq> Returned"
        by blast
      from on_subject h subject_not_applied [where gw = gw and d = d and s = s and key = "(ch, uid u)" and u = u, OF n on_subject(2)] show ?thesis
        by (intro ignored) (simp_all add: s'_def calls_def conversation_key_def)
    qed
  next
    case (on_lecture ch u t)
    show ?thesis
    proof (cases "strip t = []")
      case True
      from on_lecture h lecture_not_applied [where gw = gw and t = t and s = s and key = "(ch, uid u)" and u = u, OF True on_lecture(2)] show ?thesis
        by (intro ignored) (simp_all add: s'_def calls_def conversation_key_def)
    next
      case False
      with on_lecture h show ?thesis
        by (intro lecture [of ch u t])
           (simp_all add: s'_def calls_def lecture_applied conversation_key_def Let_def)
    qed
  next
    case (on_photo ch u p)
    define c where "c = \<lparr>cid = lit ''complaint_'' @ str_int (complaint_counter s + 1),
            user_id = uid u, username = user_name u,
            batch = get_user_data s (uid u) ''batch'',
            subject = get_user_data s (uid u) ''subject'',
            lecture_name = get_user_data s (uid u) ''lecture_name'',
            photo_file_id = file_id (last p), status = lit ''submitted'', created_at = None\<rparr>"
    have cid: "cid c = lit ''complaint_'' @ str_int (complaint_counter s + 1)"
      by (simp add: c_def)
    from h on_photo(1,4) photo_applied [where admin = admin and gw = gw and s = s and u = u and key = "(ch, uid u)", OF on_photo(2)]
    have s': "s' = s\<lparr>complaint_counter := complaint_counter s + 1,
              complaint_store := (complaint_store s)(cid c \<mapsto> c),
              user_data_store :=
                (if gw (ReplyText (ComplaintSubmittedText (cid c)) None) = Returned
                 then (user_data_store s)(uid u := None)
                 else (user_data_store s)
                        (uid u \<mapsto> (get_user_data s (uid u))(''complaint_id'' \<mapsto> cid c))),
              conversations :=
                (if gw (ReplyText (ComplaintSubmittedText (cid c)) None) = Returned
                 then (conversations s)((ch, uid u) := None) else conversations s)\<rparr>"
      and ids: "issued_ids calls = [cid c]"
      unfolding cid
      by (simp_all add: s'_def calls_def conversation_key_def Let_def c_def
          del: append.simps)
    then show ?thesis
      by (intro photo [where ch = ch and u = u and p = p and c = c])
         (use on_photo c_def in simp_all)
  next
    case (on_nophoto ch u t)
    from on_nophoto h nophoto_applied [where gw = gw and admin = admin and s = s and key = "(ch, uid u)" and u = u, OF on_nophoto(2)] show ?thesis
      by (intro ignored) (simp_all add: s'_def calls_def conversation_key_def)
  qed
qed

section \<open>Invariants of a run\<close>

lemma run_append: "run admin s (xs @ ys) = run admin (run admin s xs) ys"
proof (induction xs arbitrary: s)
  case Nil
  then show ?case by simp
next
  case (Cons e xs)
  obtain gw upd where "e = (gw, upd)" by (cases e)
  with Cons show ?case by simp
qed

lemma str_int_inject: "str_int a = str_int b \<Longrightarrow> a = b"
  by (metis int_of_str_str_int)

lemma complaint_number_id: "complaint_number (lit ''complaint_'' @ str_int n) = n"
  by (simp add: complaint_number_def int_of_str_str_int)

lemma ids_issued_initial: "ids_issued initial_state"
  by (simp add: ids_issued_def initial_state_def)

lemma ids_issued_step:
  assumes "ids_issued s"
  shows "ids_issued (fst (handle_update admin gw s upd))"
proof (cases rule: handle_update_step [of admin gw s upd])
  case (photo ch u p c)
  from photo(4) have cid: "cid c = lit ''complaint_'' @ str_int (complaint_counter s + 1)"
    by simp
  show ?thesis
    unfolding ids_issued_def
  proof (intro allI impI)
    fix k
    assume "complaint_store (fst (handle_update admin gw s upd)) k \<noteq> None"
    with photo(5) have "k = cid c \<or> complaint_store s k \<noteq> None"
      by (simp split: if_splits)
    then consider "k = lit ''complaint_'' @ str_int (complaint_counter s + 1)"
      | "complaint_store s k \<noteq> None" using cid by auto
    then have "\<exists>n. n \<le> complaint_counter s + 1 \<and> k = lit ''complaint_'' @ str_int n"
    proof cases
      case 1
      then show ?thesis by blast
    next
      case 2
      with assms obtain n where "n \<le> complaint_counter s" "k = lit ''complaint_'' @ str_int n"
        unfolding ids_issued_def by blast
      then have "n \<le> complaint_counter s + 1 \<and> k = lit ''complaint_'' @ str_int n" by simp
      then show ?thesis by blast
    qed
    with photo(5)
    show "\<exists>n. n \<le> complaint_counter (fst (handle_update admin gw s upd))
                \<and> k = lit ''complaint_'' @ str_int n"
      by simp
  qed
next
  case (status ch u d k c t)
  with assms show ?thesis unfolding ids_issued_def by simp
qed (use assms in \<open>simp_all add: ids_issued_def\<close>)

lemma ids_issued_run: "ids_issued s \<Longrightarrow> ids_issued (run admin s evs)"
proof (induction evs arbitrary: s)
  case Nil
  then show ?case by simp
next
  case (Cons e evs)
  obtain gw upd where "e = (gw, upd)" by (cases e)
  with Cons show ?case by (simp add: ids_issued_step)
qed

lemma ids_issued_fresh:
  assumes "ids_issued s"
  shows "complaint_store s (lit ''complaint_'' @ str_int (complaint_counter s + 1)) = None"
proof (rule ccontr)
  assume "complaint_store s (lit ''complaint_'' @ str_int (complaint_counter s + 1)) \<noteq> None"
  with assms obtain n where n: "n \<le> complaint_counter s"
    and "lit ''complaint_'' @ str_int (complaint_counter s + 1) = lit ''complaint_'' @ str_int n"
    unfolding ids_issued_def by blast
  then have "str_int (complaint_counter s + 1) = str_int n" by simp
  then have "complaint_counter s + 1 = n" by (rule str_int_inject)
  with n show False by simp
qed

lemma statuses_valid_step:
  assumes "statuses_valid s" and "status_checked admin upd"
  shows "statuses_valid (fst (handle_update admin gw s upd))"
proof (cases rule: handle_update_step [of admin gw s upd])
  case (photo ch u p c)
  from photo(4) have "status c = lit ''submitted''" by simp
  then have "status c \<in> set status_enum" by (simp add: status_enum_def)
  with assms(1) photo(5) show ?thesis
    unfolding statuses_valid_def by simp
next
  case (status ch u d k c t)
  with assms(2) have "t \<in> set status_enum" by simp
  with assms(1) status(6) show ?thesis
    unfolding statuses_valid_def by simp
qed (use assms in \<open>simp_all add: statuses_valid_def\<close>)

lemma statuses_valid_run:
  assumes "statuses_valid s" and "\<forall>e \<in> set evs. status_checked admin (snd e)"
  shows "statuses_valid (run admin s evs)"
  using assms
proof (induction evs arbitrary: s)
  case Nil
  then show ?case by simp
next
  case (Cons e evs)
  obtain gw upd where "e = (gw, upd)" by (cases e)
  with Cons show ?case by (simp add: statuses_valid_step)
qed

lemma issued_step:
  "(issued_ids (snd (handle_update admin gw s upd)) = []
      \<and> complaint_counter (fst (handle_update admin gw s upd)) = complaint_counter s)
   \<or> (issued_ids (snd (handle_update admin gw s upd))
         = [lit ''complaint_'' @ str_int (complaint_counter s + 1)]
      \<and> complaint_counter (fst (handle_update admin gw s upd)) = complaint_counter s + 1)"
proof (cases rule: handle_update_step [of admin gw s upd])
  case (photo ch u p c)
  from photo(4) have "cid c = lit ''complaint_'' @ str_int (complaint_counter s + 1)" by simp
  with photo(5,6) show ?thesis by simp
qed simp_all

lemma issued_run:
  "sorted_wrt (\<lambda>a b. a \<noteq> b \<and> complaint_number a < complaint_number b)
     (issued_ids (run_calls admin s evs))
   \<and> (\<forall>a \<in> set (issued_ids (run_calls admin s evs)). complaint_counter s < complaint_number a)"
proof (induction evs arbitrary: s)
  case Nil
  then show ?case by simp
next
  case (Cons e evs)
  obtain gw upd where e: "e = (gw, upd)" by (cases e)
  define s' where "s' = fst (handle_update admin gw s upd)"
  define now where "now = issued_ids (snd (handle_update admin gw s upd))"
  define later where "later = issued_ids (run_calls admin s' evs)"
  define new_id where "new_id = lit ''complaint_'' @ str_int (complaint_counter s + 1)"
  have ih: "sorted_wrt (\<lambda>a b. a \<noteq> b \<and> complaint_number a < complaint_number b) later"
    and after: "\<forall>a \<in> set later. complaint_counter s' < complaint_number a"
    using Cons [of s'] by (simp_all add: later_def)
  have split: "issued_ids (run_calls admin s (e # evs)) = now @ later"
    by (simp add: e now_def later_def s'_def)
  from issued_step [of admin gw s upd]
  consider "now = []" "complaint_counter s' = complaint_counter s"
    | "now = [new_id]" "complaint_counter s' = complaint_counter s + 1"
    unfolding now_def s'_def new_id_def by blast
  then show ?case
  proof cases
    case 1
    with ih after split show ?thesis by simp
  next
    case 2
    have n: "complaint_number new_id = complaint_counter s + 1"
      unfolding new_id_def by (rule complaint_number_id)
    have "\<forall>a \<in> set later. new_id \<noteq> a \<and> complaint_counter s + 1 < complaint_number a"
    proof
      fix a assume "a \<in> set later"
      with after 2 have lt: "complaint_counter s + 1 < complaint_number a" by simp
      with n have "new_id \<noteq> a" by auto
      with lt show "new_id \<noteq> a \<and> complaint_counter s + 1 < complaint_number a" by simp
    qed
    with ih split 2 n show ?thesis by auto
  qed
qed

subsection \<open>The order of the fields\<close>


lemma drafts_fit_key: "drafts_fit home s \<Longrightarrow> conversations s (ch, u) = Some st \<Longrightarrow> ch = home u"
  unfolding drafts_fit_def by blast








lemma sorted_wrt_last:
  "sorted_wrt P xs \<Longrightarrow> x \<in> set xs \<Longrightarrow> x = last xs \<or> P x (last xs)"
proof (induction xs)
  case Nil
  then show ?case by simp
next
  case (Cons y ys)
  then show ?case by (cases "ys = []") auto
qed

lemma photo_step:
  assumes "conversations s (ch, uid u) = Some SCREENSHOT_UPLOAD" and "p \<noteq> []"
  shows "handle_update admin gw s (PhotoMessage ch u p)
           = (case screenshot_handler admin gw s u p of
                (s', r, calls) \<Rightarrow> (set_conversation s' (ch, uid u) r, calls))"
  using assms by (simp add: handle_update_def conversation_handler_def conversation_key_def)

subsection \<open>The sample runs\<close>

lemma example_strings:
  "replace (lit ''_'') (lit '' '') (replace (lit ''batch_'') [] (lit ''batch_master_quest_2026''))
     = lit ''master quest 2026''"
  "replace (lit ''_'') (lit '' '') (replace (lit ''subject_'') [] (lit ''subject_Quant''))
     = lit ''Quant''"
  "strip (lit ''Linear Equations Lecture 3'') = lit ''Linear Equations Lecture 3''"
  "replace (lit ''_'') (lit '' '') (replace (lit ''batch_'') [] (lit ''batch_foo'')) = lit ''foo''"
  "replace (lit ''_'') (lit '' '') (replace (lit ''batch_'') [] (lit ''batch_my_batch_1''))
     = lit ''my 1''"
  "strip (lit '' Sets 2 '') = lit ''Sets 2''"
  "strip (lit ''  '') = []"
  by code_simp+

lemma example_prefixes:
  "startswith (lit ''batch_master_quest_2026'') (lit ''batch_'')"
  "startswith (lit ''batch_foo'') (lit ''batch_'')"
  "startswith (lit ''batch_my_batch_1'') (lit ''batch_'')"
  "startswith (lit ''subject_Quant'') (lit ''subject_'')"
  "\<not> startswith (lit ''subject_Quant'') (lit ''batch_'')"
  "\<not> startswith (lit ''subject_Quant'') (lit ''restart'')"
  "\<not> startswith (lit ''subject_Quant'') (lit ''status_'')"
  "startswith (lit ''status_complaint_1_resolved'') (lit ''status_'')"
  by code_simp+

lemmas example_defs =
  handle_update_def conversation_handler_def conversation_key_def alice_def reviewer_def
  private_chat_def group_chat_def lower_examples start_command_def
  clear_user_data_eq store_user_data_eq initial_state_def set_conversation_def
  batch_selection_handler_def example_strings example_prefixes subject_selection_handler_def
  Let_def lecture_name_handler_def get_user_data_def str_int_examples always_returns_def
  replies_fail_def DEFAULT_ADMIN_CHAT_ID_def


lemma example_draft_run:
  "run DEFAULT_ADMIN_CHAT_ID initial_state example_draft = awaiting_photo_state"
  by (simp add: example_draft_def awaiting_photo_state_def example_defs)

lemma example_ids:
  "lit ''complaint_'' @ str_int 1 = lit ''complaint_1''"
  "lit ''complaint_'' @ str_int 2 = lit ''complaint_2''"
  by code_simp+

lemma example_photo_step:
  "handle_update DEFAULT_ADMIN_CHAT_ID always_returns awaiting_photo_state
     (PhotoMessage private_chat alice example_photo)
   = (submitted_state,
      [ReplyText (ComplaintSubmittedText (lit ''complaint_1'')) None,
       SendPhoto DEFAULT_ADMIN_CHAT_ID (lit ''large''),
       SendMessage DEFAULT_ADMIN_CHAT_ID (format_complaint_message example_complaint)
         (Some (get_status_keyboard (lit ''complaint_1'')))])"
proof -
  have c: "conversations awaiting_photo_state (private_chat, uid alice) = Some SCREENSHOT_UPLOAD"
    by (simp add: awaiting_photo_state_def private_chat_def alice_def)
  have p: "example_photo \<noteq> []" by (simp add: example_photo_def)
  have n: "complaint_counter awaiting_photo_state = 0" by (simp add: awaiting_photo_state_def)
  show ?thesis
    unfolding photo_step [OF c p] photo_applied [OF p] n
    by (simp add: example_ids Let_def always_returns_def)
       (simp add: awaiting_photo_state_def submitted_state_def example_complaint_def
          example_photo_def alice_def private_chat_def get_user_data_def)
qed

lemma example_submission_run:
  "run DEFAULT_ADMIN_CHAT_ID initial_state example_submission = submitted_state"
  by (simp add: example_submission_def run_append example_draft_run example_photo_step)

lemma admin_status_handler_store:
  assumes "parse_status_data d = Some (k, t)" and "complaint_store s k = Some c"
    and "uid u = admin" and "gw (Answer None False) = Returned"
  shows "fst (admin_status_handler admin gw s u d)
           = s\<lparr>complaint_store := (complaint_store s)(k \<mapsto> c\<lparr>status := t\<rparr>)\<rparr>"
  using assms
  by (simp add: admin_status_handler_def is_admin_def get_complaint_def
      update_complaint_status_def Let_def refresh_admin_message_effect)

lemma example_status_run:
  assumes "parse_status_data d = Some (lit ''complaint_1'', t)"
    and "gw (Answer None False) = Returned"
  shows "run DEFAULT_ADMIN_CHAT_ID initial_state
           (example_submission @ [(gw, CallbackQuery admin_chat reviewer d)])
         = submitted_state\<lparr>complaint_store :=
             [lit ''complaint_1'' \<mapsto> example_complaint\<lparr>status := t\<rparr>]\<rparr>"
proof -
  have "run DEFAULT_ADMIN_CHAT_ID initial_state
           (example_submission @ [(gw, CallbackQuery admin_chat reviewer d)])
        = fst (handle_update DEFAULT_ADMIN_CHAT_ID gw submitted_state
                 (CallbackQuery admin_chat reviewer d))"
    by (simp add: run_append example_submission_run)
  also have "\<dots> = fst (admin_status_handler DEFAULT_ADMIN_CHAT_ID gw submitted_state reviewer d)"
    using parse_status_data_prefix [OF assms(1)] by (simp only: handle_status_callback)
  also have "\<dots> = submitted_state\<lparr>complaint_store :=
        (complaint_store submitted_state)
          (lit ''complaint_1'' \<mapsto> example_complaint\<lparr>status := t\<rparr>)\<rparr>"
    by (rule admin_status_handler_store
          [where c = example_complaint and k = "lit ''complaint_1''" and t = t])
       (use assms in \<open>simp_all add: submitted_state_def reviewer_def DEFAULT_ADMIN_CHAT_ID_def\<close>)
  finally show ?thesis by (simp add: submitted_state_def)
qed

section \<open>The status workflow\<close>

text \<open>
  C6.  A status update by anyone but the privileged user changes nothing: the handler
  returns the globals as they were, so no complaint and in particular no status changes,
  and its only call answers the query with the alert that the user is not authorized.
  This holds for the handler on any callback data, and for the application on every
  callback whose data starts with \<^verbatim>\<open>status_\<close>, in whatever chat and step the user is
  and however the calls on the gateway end.
\<close>

theorem unauthorized_status_update_rejected:
  assumes "uid u \<noteq> admin"
  shows "admin_status_handler admin gw s u data = (s, [Answer (Some NotAuthorizedText) True])
         \<and> (startswith data (lit ''status_'') \<longrightarrow>
              handle_update admin gw s (CallbackQuery ch u data)
                = (s, [Answer (Some NotAuthorizedText) True]))"
  using assms by (simp add: handle_status_callback admin_status_handler_def is_admin_def)

theorem unauthorized_status_update_rejected_witness:
  "uid alice \<noteq> DEFAULT_ADMIN_CHAT_ID
   \<and> startswith (lit ''status_complaint_1_resolved'') (lit ''status_'')
   \<and> handle_update DEFAULT_ADMIN_CHAT_ID always_returns submitted_state
        (CallbackQuery private_chat alice (lit ''status_complaint_1_resolved''))
       = (submitted_state, [Answer (Some NotAuthorizedText) True])
   \<and> map_option status (complaint_store submitted_state (lit ''complaint_1''))
       = Some (lit ''submitted'')"
proof -
  have a: "uid alice \<noteq> DEFAULT_ADMIN_CHAT_ID"
    by (simp add: alice_def DEFAULT_ADMIN_CHAT_ID_def)
  from unauthorized_status_update_rejected [OF a, of always_returns submitted_state
      "lit ''status_complaint_1_resolved''" private_chat] a
  show ?thesis
    by (simp add: submitted_state_def example_complaint_def example_prefixes)
qed

text \<open>
  C7.  A status update for an id that is not in the store does not tell every actor that
  the complaint was not found: the authorization check comes first, so that an actor
  other than the privileged user gets the alert that the user is not authorized, and
  nothing else.
\<close>

theorem unknown_id_not_reported_counterexample:
  "complaint_store submitted_state (lit ''complaint_9'') = None
   \<and> parse_status_data (lit ''status_complaint_9_seen'') = Some (lit ''complaint_9'', lit ''seen'')
   \<and> handle_update DEFAULT_ADMIN_CHAT_ID always_returns submitted_state
        (CallbackQuery private_chat alice (lit ''status_complaint_9_seen''))
       = (submitted_state, [Answer (Some NotAuthorizedText) True])"
proof -
  have p: "parse_status_data (lit ''status_complaint_9_seen'')
             = Some (lit ''complaint_9'', lit ''seen'')"
    by code_simp
  have h: "handle_update DEFAULT_ADMIN_CHAT_ID always_returns submitted_state
        (CallbackQuery private_chat alice (lit ''status_complaint_9_seen''))
       = admin_status_handler DEFAULT_ADMIN_CHAT_ID always_returns submitted_state alice
           (lit ''status_complaint_9_seen'')"
    by (rule handle_status_callback) (rule parse_status_data_prefix [OF p])
  show ?thesis
    unfolding h
    by (simp add: p submitted_state_def admin_status_handler_def is_admin_def alice_def
        DEFAULT_ADMIN_CHAT_ID_def)
qed

text \<open>
  C7, as the code has it.  A status update for an id that is not in the store is a no-op:
  \<^verbatim>\<open>update_complaint_status\<close> returns \<^verbatim>\<open>False\<close> and leaves the globals as they were;
  the application leaves them as they were too, whoever sent the callback and however
  the calls end, so no record is created or changed.  The privileged user is told that
  the complaint was not found, after the acknowledgement of the query, if that call
  returned; any other actor gets the alert that the user is not authorized.
\<close>

theorem status_update_unknown_id:
  assumes "complaint_store s complaint_id = None"
    and "parse_status_data data = Some (complaint_id, new_status)"
  shows "update_complaint_status s complaint_id new_status = (s, False)
         \<and> handle_update admin gw s (CallbackQuery ch u data)
             = (s, if uid u \<noteq> admin then [Answer (Some NotAuthorizedText) True]
                   else if gw (Answer None False) \<noteq> Returned then [Answer None False]
                   else [Answer None False, ReplyText ComplaintNotFoundText None])"
proof -
  have upd: "update_complaint_status s complaint_id new_status = (s, False)"
    using assms(1) by (simp add: update_complaint_status_def)
  have "handle_update admin gw s (CallbackQuery ch u data)
          = admin_status_handler admin gw s u data"
    using assms(2) by (intro handle_status_callback parse_status_data_prefix)
  also have "\<dots> = (s, if uid u \<noteq> admin then [Answer (Some NotAuthorizedText) True]
                   else if gw (Answer None False) \<noteq> Returned then [Answer None False]
                   else [Answer None False, ReplyText ComplaintNotFoundText None])"
    using assms by (simp add: admin_status_handler_def get_complaint_def is_admin_def)
  finally show ?thesis using upd by simp
qed

theorem status_update_unknown_id_witness:
  "complaint_store submitted_state (lit ''complaint_2'') = None
   \<and> parse_status_data (lit ''status_complaint_2_seen'') = Some (lit ''complaint_2'', lit ''seen'')
   \<and> update_complaint_status submitted_state (lit ''complaint_2'') (lit ''seen'')
       = (submitted_state, False)
   \<and> handle_update DEFAULT_ADMIN_CHAT_ID always_returns submitted_state
        (CallbackQuery admin_chat reviewer (lit ''status_complaint_2_seen''))
       = (submitted_state, [Answer None False, ReplyText ComplaintNotFoundText None])"
proof -
  have a: "complaint_store submitted_state (lit ''complaint_2'') = None"
    by (simp add: submitted_state_def)
  have p: "parse_status_data (lit ''status_complaint_2_seen'')
             = Some (lit ''complaint_2'', lit ''seen'')"
    by code_simp
  from status_update_unknown_id [OF a p, of DEFAULT_ADMIN_CHAT_ID always_returns admin_chat
      reviewer] a p
  show ?thesis
    by (simp add: reviewer_def DEFAULT_ADMIN_CHAT_ID_def always_returns_def)
qed

text \<open>
  C9.  When the privileged user updates the status of an existing complaint and the
  message to the submitter does not get through, the complaint keeps the new status in
  the store, and the reviewer gets the reply that the status was updated but the user
  could not be notified.  The status is applied after the acknowledgement of the query
  returned.
\<close>

theorem notification_failure_keeps_status:
  assumes "is_admin admin (uid u)"
    and "gw (Answer None False) = Returned"
    and "parse_status_data data = Some (complaint_id, new_status)"
    and "complaint_store s complaint_id = Some c"
    and "gw (SendMessage (user_id c)
              (StatusChangedText complaint_id new_status (subject c) (lecture_name c)) None)
           \<noteq> Returned"
  shows "handle_update admin gw s (CallbackQuery ch u data)
           = (s\<lparr>complaint_store := (complaint_store s)(complaint_id \<mapsto> c\<lparr>status := new_status\<rparr>)\<rparr>,
              [Answer None False,
               SendMessage (user_id c)
                 (StatusChangedText complaint_id new_status (subject c) (lecture_name c)) None,
               ReplyText (StatusUpdatedNotNotifiedText new_status) None])"
proof -
  have "handle_update admin gw s (CallbackQuery ch u data) = admin_status_handler admin gw s u data"
    using assms(3) by (intro handle_status_callback parse_status_data_prefix)
  then show ?thesis
    using assms by (simp add: admin_status_handler_def get_complaint_def update_complaint_status_def)
qed

theorem notification_failure_keeps_status_witness:
  "is_admin DEFAULT_ADMIN_CHAT_ID (uid reviewer)
   \<and> submitter_unreachable (Answer None False) = Returned
   \<and> parse_status_data (lit ''status_complaint_1_seen'') = Some (lit ''complaint_1'', lit ''seen'')
   \<and> complaint_store submitted_state (lit ''complaint_1'') = Some example_complaint
   \<and> submitter_unreachable
        (SendMessage 42
           (StatusChangedText (lit ''complaint_1'') (lit ''seen'') (Some (lit ''Quant''))
              (Some (lit ''Linear Equations Lecture 3''))) None) \<noteq> Returned
   \<and> map_option status
        (complaint_store
           (fst (handle_update DEFAULT_ADMIN_CHAT_ID submitter_unreachable submitted_state
                   (CallbackQuery admin_chat reviewer (lit ''status_complaint_1_seen''))))
           (lit ''complaint_1''))
       = Some (lit ''seen'')
   \<and> last (snd (handle_update DEFAULT_ADMIN_CHAT_ID submitter_unreachable submitted_state
                   (CallbackQuery admin_chat reviewer (lit ''status_complaint_1_seen''))))
       = ReplyText (StatusUpdatedNotNotifiedText (lit ''seen'')) None"
proof -
  have r: "is_admin DEFAULT_ADMIN_CHAT_ID (uid reviewer)"
    by (simp add: is_admin_def reviewer_def DEFAULT_ADMIN_CHAT_ID_def)
  have k: "submitter_unreachable (Answer None False) = Returned"
    by (simp add: submitter_unreachable_def)
  have p: "parse_status_data (lit ''status_complaint_1_seen'')
             = Some (lit ''complaint_1'', lit ''seen'')"
    by code_simp
  have c: "complaint_store submitted_state (lit ''complaint_1'') = Some example_complaint"
    by (simp add: submitted_state_def)
  have g: "submitter_unreachable
        (SendMessage (user_id example_complaint)
           (StatusChangedText (lit ''complaint_1'') (lit ''seen'') (subject example_complaint)
              (lecture_name example_complaint)) None) \<noteq> Returned"
    by (simp add: submitter_unreachable_def)
  from notification_failure_keeps_status
         [where gw = submitter_unreachable and c = example_complaint and ch = admin_chat,
          OF r k p c g] r k p c g
  show ?thesis by (simp add: example_complaint_def)
qed



text \<open>
  C2.  The status of a stored complaint is not confined to the status enumeration: the
  status handler stores the last part of the callback data, whatever it is.  After a
  submission, a callback of the privileged user with the data
  \<^verbatim>\<open>status_complaint_1_bogus\<close> leaves the complaint with the status \<^verbatim>\<open>bogus\<close>.
\<close>

theorem status_outside_enumeration_counterexample:
  "map_option status
     (complaint_store
        (run DEFAULT_ADMIN_CHAT_ID initial_state
           (example_submission
            @ [(always_returns, CallbackQuery admin_chat reviewer (lit ''status_complaint_1_bogus''))]))
        (lit ''complaint_1'')) = Some (lit ''bogus'')
   \<and> lit ''bogus'' \<notin> set status_enum
   \<and> \<not> statuses_valid
        (run DEFAULT_ADMIN_CHAT_ID initial_state
           (example_submission
            @ [(always_returns, CallbackQuery admin_chat reviewer (lit ''status_complaint_1_bogus''))]))"
proof -
  have p: "parse_status_data (lit ''status_complaint_1_bogus'')
             = Some (lit ''complaint_1'', lit ''bogus'')"
    by code_simp
  have r: "always_returns (Answer None False) = Returned" by (simp add: always_returns_def)
  have st: "map_option status
     (complaint_store
        (run DEFAULT_ADMIN_CHAT_ID initial_state
           (example_submission
            @ [(always_returns, CallbackQuery admin_chat reviewer (lit ''status_complaint_1_bogus''))]))
        (lit ''complaint_1'')) = Some (lit ''bogus'')"
    by (simp add: example_status_run [where gw = always_returns, OF p r])
  have ne: "lit ''bogus'' \<notin> set status_enum" by (simp add: status_enum_def)
  from st ne have "\<not> statuses_valid
        (run DEFAULT_ADMIN_CHAT_ID initial_state
           (example_submission
            @ [(always_returns, CallbackQuery admin_chat reviewer (lit ''status_complaint_1_bogus''))]))"
    unfolding statuses_valid_def by force
  with st ne show ?thesis by blast
qed

text \<open>
  C2, as the code has it.  The status of a complaint is \<^verbatim>\<open>submitted\<close> when it is
  created, and afterwards the last part of the data of a status callback of the
  privileged user.  So every stored status is in the enumeration after a run in which
  every such callback carries a token of the enumeration; and the buttons of the status
  keyboard, the only source of such callbacks that the bot offers, all do.
\<close>

theorem status_valid_when_callbacks_valid:
  assumes "\<forall>e \<in> set evs. status_checked admin (snd e)"
  shows "statuses_valid (run admin initial_state evs)
         \<and> (\<forall>b \<in> set (concat (get_status_keyboard k)).
               status_checked admin (CallbackQuery ch u (snd b)))"
proof -
  have "statuses_valid initial_state" by (simp add: statuses_valid_def initial_state_def)
  then have run: "statuses_valid (run admin initial_state evs)"
    using assms by (rule statuses_valid_run)
  have "status_checked admin (CallbackQuery ch u (snd b))"
    if "b \<in> set (concat (get_status_keyboard k))" for b
  proof -
    from that obtain st where st: "st \<in> set STATUS_OPTIONS"
      and b: "snd b = lit ''status_'' @ k @ lit ''_'' @ lower st"
      by (auto simp add: status_keyboard_buttons)
    from st have "lower st \<in> set (map lower STATUS_OPTIONS)" by simp
    then have "lower st \<in> set status_enum"
      by (simp add: lower_STATUS_OPTIONS status_enum_def)
    moreover have "parse_status_data (snd b) = Some (k, lower st)"
      unfolding b by (rule parse_status_data_built) (rule lower_status_no_sep [OF st])
    ultimately show ?thesis by simp
  qed
  with run show ?thesis by blast
qed

theorem status_valid_when_callbacks_valid_witness:
  "status_checked DEFAULT_ADMIN_CHAT_ID
     (CallbackQuery admin_chat reviewer (lit ''status_complaint_1_seen''))
   \<and> statuses_valid
       (run DEFAULT_ADMIN_CHAT_ID initial_state
          (example_submission
           @ [(always_returns, CallbackQuery admin_chat reviewer (lit ''status_complaint_1_seen''))]))
   \<and> map_option status
       (complaint_store
          (run DEFAULT_ADMIN_CHAT_ID initial_state
             (example_submission
              @ [(always_returns, CallbackQuery admin_chat reviewer (lit ''status_complaint_1_seen''))]))
          (lit ''complaint_1'')) = Some (lit ''seen'')
   \<and> status_checked DEFAULT_ADMIN_CHAT_ID
       (CallbackQuery admin_chat reviewer (lit ''status_complaint_1_resolved''))"
proof -
  have p: "parse_status_data (lit ''status_complaint_1_seen'')
             = Some (lit ''complaint_1'', lit ''seen'')"
    by code_simp
  have r: "always_returns (Answer None False) = Returned" by (simp add: always_returns_def)
  have c: "status_checked DEFAULT_ADMIN_CHAT_ID
             (CallbackQuery admin_chat reviewer (lit ''status_complaint_1_seen''))"
    by (simp add: p status_enum_def)
  have n: "parse_status_data (lit ''batch_master_quest_2026'') = None"
    "parse_status_data (lit ''subject_Quant'') = None"
    by code_simp+
  have h: "\<forall>e \<in> set (example_submission
             @ [(always_returns, CallbackQuery admin_chat reviewer (lit ''status_complaint_1_seen''))]).
             status_checked DEFAULT_ADMIN_CHAT_ID (snd e)"
    using c by (simp add: example_submission_def example_draft_def n)
  have st: "map_option status
       (complaint_store
          (run DEFAULT_ADMIN_CHAT_ID initial_state
             (example_submission
              @ [(always_returns, CallbackQuery admin_chat reviewer (lit ''status_complaint_1_seen''))]))
          (lit ''complaint_1'')) = Some (lit ''seen'')"
    by (simp add: example_status_run [where gw = always_returns, OF p r])
  have e: "lit ''status_'' @ lit ''complaint_1'' @ lit ''_'' @ lit ''resolved''
             = lit ''status_complaint_1_resolved''"
    by code_simp
  have b: "(lit ''Resolved'', lit ''status_complaint_1_resolved'')
             \<in> set (concat (get_status_keyboard (lit ''complaint_1'')))"
    by (simp add: status_keyboard_buttons STATUS_OPTIONS_def lower_examples e)
  from status_valid_when_callbacks_valid [OF h, of "lit ''complaint_1''" admin_chat reviewer]
    c st b
  show ?thesis by fastforce
qed

section \<open>The conversation\<close>

text \<open>
  C8.  A lecture name that is not empty after stripping is stored, but the conversation
  does not always move on to the photo: the text is stored before the summary is sent,
  and the call that sends the summary is outside any \<^verbatim>\<open>try\<close> block.  When it raises,
  the draft has the lecture name and the conversation is still at the lecture name.
\<close>

theorem lecture_name_stored_without_transition_counterexample:
  "conversations awaiting_lecture_state (private_chat, uid alice) = Some LECTURE_NAME_INPUT
   \<and> strip (lit '' Sets 2 '') = lit ''Sets 2''
   \<and> get_user_data
        (fst (handle_update DEFAULT_ADMIN_CHAT_ID replies_fail awaiting_lecture_state
                (TextMessage private_chat alice (lit '' Sets 2 ''))))
        (uid alice) ''lecture_name'' = Some (lit ''Sets 2'')
   \<and> conversations
        (fst (handle_update DEFAULT_ADMIN_CHAT_ID replies_fail awaiting_lecture_state
                (TextMessage private_chat alice (lit '' Sets 2 ''))))
        (private_chat, uid alice) = Some LECTURE_NAME_INPUT"
proof -
  have n: "lit '' Sets 2 '' \<noteq> []" by simp
  show ?thesis
    by (simp add: awaiting_lecture_state_def example_defs n)
qed

text \<open>
  C8, as the code has it.  The lecture name handler strips the text.  When nothing is
  left (the text is empty or all whitespace) it asks again and leaves the globals, and so
  the draft, as they were; it returns the state it was in, or raises when the reply does.
  Otherwise it stores the stripped text as the lecture name and sends the summary; it
  returns the state that awaits the photo when that call returns, and raises when it
  does not.  For a text message of a user whose conversation is at the lecture name, the
  application leaves the globals as they were in the first case; in the second the draft
  has the stripped text as its lecture name, and the conversation awaits the photo if the
  summary was sent and is still at the lecture name if not.
\<close>

theorem lecture_name_validation:
  "lecture_name_handler gw s u msg =
     (if \<forall>c \<in> set msg. isspace c
      then (s,
            if gw (ReplyText InvalidLectureNameText None) = Returned
            then Returns LECTURE_NAME_INPUT else Raises,
            [ReplyText InvalidLectureNameText None])
      else (store_user_data s (uid u) ''lecture_name'' (strip msg),
            if gw (ReplyText (LectureSavedText (strip msg) (get_user_data s (uid u) ''batch'')
                     (get_user_data s (uid u) ''subject'')) None) = Returned
            then Returns SCREENSHOT_UPLOAD else Raises,
            [ReplyText (LectureSavedText (strip msg) (get_user_data s (uid u) ''batch'')
               (get_user_data s (uid u) ''subject'')) None]))
   \<and> (conversations s (ch, uid u) = Some LECTURE_NAME_INPUT \<and> msg \<noteq> [] \<longrightarrow>
        (let s' = fst (handle_update admin gw s (TextMessage ch u msg))
         in if \<forall>c \<in> set msg. isspace c
            then s' = s
            else get_user_data s' (uid u)
                   = (get_user_data s (uid u))(''lecture_name'' \<mapsto> strip msg)
               \<and> conversations s' (ch, uid u)
                   = Some (if gw (ReplyText (LectureSavedText (strip msg)
                                   (get_user_data s (uid u) ''batch'')
                                   (get_user_data s (uid u) ''subject'')) None) = Returned
                           then SCREENSHOT_UPLOAD else LECTURE_NAME_INPUT)))"
proof -
  have h: "lecture_name_handler gw s u msg =
     (if \<forall>c \<in> set msg. isspace c
      then (s,
            if gw (ReplyText InvalidLectureNameText None) = Returned
            then Returns LECTURE_NAME_INPUT else Raises,
            [ReplyText InvalidLectureNameText None])
      else (store_user_data s (uid u) ''lecture_name'' (strip msg),
            if gw (ReplyText (LectureSavedText (strip msg) (get_user_data s (uid u) ''batch'')
                     (get_user_data s (uid u) ''subject'')) None) = Returned
            then Returns SCREENSHOT_UPLOAD else Raises,
            [ReplyText (LectureSavedText (strip msg) (get_user_data s (uid u) ''batch'')
               (get_user_data s (uid u) ''subject'')) None]))"
    using strip_empty_iff [of msg]
    by (simp add: lecture_name_handler_def Let_def get_user_data_def store_user_data_def)
  { assume a: "conversations s (ch, uid u) = Some LECTURE_NAME_INPUT" "msg \<noteq> []"
    then have d: "handle_update admin gw s (TextMessage ch u msg) =
       (case lecture_name_handler gw s u msg of
          (s', r, calls) \<Rightarrow> (set_conversation s' (ch, uid u) r, calls))"
      by (simp add: handle_update_def conversation_handler_def conversation_key_def)
    have "(let s' = fst (handle_update admin gw s (TextMessage ch u msg))
         in if \<forall>c \<in> set msg. isspace c
            then s' = s
            else get_user_data s' (uid u)
                   = (get_user_data s (uid u))(''lecture_name'' \<mapsto> strip msg)
               \<and> conversations s' (ch, uid u)
                   = Some (if gw (ReplyText (LectureSavedText (strip msg)
                                   (get_user_data s (uid u) ''batch'')
                                   (get_user_data s (uid u) ''subject'')) None) = Returned
                           then SCREENSHOT_UPLOAD else LECTURE_NAME_INPUT))"
    proof (cases "strip msg = []")
      case True
      with a(1) show ?thesis
        unfolding d by (simp add: lecture_not_applied strip_empty_iff [symmetric] Let_def)
    next
      case False
      with a(1) show ?thesis
        unfolding d
        by (simp add: lecture_applied strip_empty_iff [symmetric] Let_def get_user_data_def)
    qed }
  with h show ?thesis by blast
qed

theorem lecture_name_validation_witness:
  "conversations awaiting_lecture_state (private_chat, uid alice) = Some LECTURE_NAME_INPUT
   \<and> fst (handle_update DEFAULT_ADMIN_CHAT_ID always_returns awaiting_lecture_state
             (TextMessage private_chat alice (lit ''  ''))) = awaiting_lecture_state
   \<and> conversations
        (fst (handle_update DEFAULT_ADMIN_CHAT_ID always_returns awaiting_lecture_state
                (TextMessage private_chat alice (lit '' Sets 2 ''))))
        (private_chat, uid alice) = Some SCREENSHOT_UPLOAD
   \<and> get_user_data
        (fst (handle_update DEFAULT_ADMIN_CHAT_ID always_returns awaiting_lecture_state
                (TextMessage private_chat alice (lit '' Sets 2 ''))))
        (uid alice) ''lecture_name'' = Some (lit ''Sets 2'')"
proof -
  have a: "\<forall>c \<in> set (lit ''  ''). isspace c"
    using strip_empty_iff [of "lit ''  ''"] by (simp add: example_strings)
  have b: "\<not> (\<forall>c \<in> set (lit '' Sets 2 ''). isspace c)"
    using strip_empty_iff [of "lit '' Sets 2 ''"] by (simp add: example_strings)
  have d: "conversations awaiting_lecture_state (private_chat, uid alice)
             = Some LECTURE_NAME_INPUT"
    by (simp add: awaiting_lecture_state_def alice_def private_chat_def)
  have n: "lit ''  '' \<noteq> []" "lit '' Sets 2 '' \<noteq> []" by simp_all
  from lecture_name_validation
         [of always_returns awaiting_lecture_state alice "lit ''  ''" private_chat
            DEFAULT_ADMIN_CHAT_ID]
       lecture_name_validation
         [of always_returns awaiting_lecture_state alice "lit '' Sets 2 ''" private_chat
            DEFAULT_ADMIN_CHAT_ID]
       a b d n
  show ?thesis by (simp add: Let_def example_strings always_returns_def)
qed







text \<open>
  C4.  A photo creates the complaint, but the draft is not always gone afterwards, the
  complaint is not always forwarded, and its photo is the last size, not the largest.
  The confirmation to the user is sent, outside any \<^verbatim>\<open>try\<close> block, after the complaint
  was created and before it is forwarded and the draft deleted: when that call raises,
  the complaint is in the store, the draft is still there, and no call to the reviewer
  was made.  And of a photo whose sizes come with the largest first, the smaller one is
  stored.
\<close>

theorem photo_without_forwarding_counterexample:
  "conversations (run DEFAULT_ADMIN_CHAT_ID initial_state example_draft)
     (private_chat, uid alice) = Some SCREENSHOT_UPLOAD
   \<and> complaint_store
       (fst (handle_update DEFAULT_ADMIN_CHAT_ID replies_fail
              (run DEFAULT_ADMIN_CHAT_ID initial_state example_draft)
              (PhotoMessage private_chat alice example_photo)))
       (lit ''complaint_1'') = Some example_complaint
   \<and> user_data_store
       (fst (handle_update DEFAULT_ADMIN_CHAT_ID replies_fail
              (run DEFAULT_ADMIN_CHAT_ID initial_state example_draft)
              (PhotoMessage private_chat alice example_photo)))
       (uid alice) \<noteq> None
   \<and> snd (handle_update DEFAULT_ADMIN_CHAT_ID replies_fail
            (run DEFAULT_ADMIN_CHAT_ID initial_state example_draft)
            (PhotoMessage private_chat alice example_photo))
       = [ReplyText (ComplaintSubmittedText (lit ''complaint_1'')) None]
   \<and> map width (rev example_photo) = [1280, 90]
   \<and> map_option photo_file_id
       (complaint_store
          (fst (handle_update DEFAULT_ADMIN_CHAT_ID always_returns
                 (run DEFAULT_ADMIN_CHAT_ID initial_state example_draft)
                 (PhotoMessage private_chat alice (rev example_photo))))
          (lit ''complaint_1'')) = Some (lit ''small'')"
proof -
  have c: "conversations awaiting_photo_state (private_chat, uid alice) = Some SCREENSHOT_UPLOAD"
    by (simp add: awaiting_photo_state_def private_chat_def alice_def)
  have p: "example_photo \<noteq> []" "rev example_photo \<noteq> []" by (simp_all add: example_photo_def)
  have n: "complaint_counter awaiting_photo_state = 0" by (simp add: awaiting_photo_state_def)
  have lost: "handle_update DEFAULT_ADMIN_CHAT_ID replies_fail awaiting_photo_state
       (PhotoMessage private_chat alice example_photo)
     = (awaiting_photo_state
          \<lparr>complaint_counter := 1,
           complaint_store := [lit ''complaint_1'' \<mapsto> example_complaint],
           user_data_store :=
             [42 \<mapsto> [''batch'' \<mapsto> lit ''master quest 2026'', ''subject'' \<mapsto> lit ''Quant'',
                      ''lecture_name'' \<mapsto> lit ''Linear Equations Lecture 3'',
                      ''complaint_id'' \<mapsto> lit ''complaint_1'']]\<rparr>,
        [ReplyText (ComplaintSubmittedText (lit ''complaint_1'')) None])"
    unfolding photo_step [OF c p(1)] photo_applied [OF p(1)] n
    by (simp add: example_ids Let_def replies_fail_def)
       (simp add: awaiting_photo_state_def example_complaint_def example_photo_def alice_def
          get_user_data_def)
  have small: "map_option photo_file_id
       (complaint_store
          (fst (handle_update DEFAULT_ADMIN_CHAT_ID always_returns awaiting_photo_state
                 (PhotoMessage private_chat alice (rev example_photo))))
          (lit ''complaint_1'')) = Some (lit ''small'')"
    unfolding photo_step [OF c p(2)] photo_applied [OF p(2)] n
    by (simp add: example_ids Let_def always_returns_def example_photo_def)
  from c lost small show ?thesis
    unfolding example_draft_run
    by (simp add: alice_def) (simp add: example_photo_def)
qed

text \<open>
  C4, as the code has it.  In a state reached by a run from the initial globals, when a
  user whose conversation is at the photo sends one, the application creates one
  complaint under an id that was not in the store: its batch, subject and lecture name
  are those of the user's draft, its photo is the last of the sizes sent, which is the
  largest when the sizes come in ascending order, and its status is \<^verbatim>\<open>submitted\<close>.
  Nothing else in the store changes.  Then the user is told the id.  If that call
  returns, the photo is sent to the reviewer, followed, if the photo got through, by the
  details of the complaint with the status keyboard; the draft is deleted and the
  conversation ends.  If it raises, no call to the reviewer is made, the draft stays,
  now with the id of the complaint, and the conversation stays at the photo.
\<close>

theorem photo_creates_one_complaint:
  assumes "s = run admin initial_state evs"
    and "conversations s (ch, uid u) = Some SCREENSHOT_UPLOAD"
    and "photo \<noteq> []"
  shows "\<exists>c. cid c = lit ''complaint_'' @ str_int (complaint_counter s + 1)
           \<and> complaint_store s (cid c) = None
           \<and> user_id c = uid u \<and> username c = user_name u
           \<and> batch c = get_user_data s (uid u) ''batch''
           \<and> subject c = get_user_data s (uid u) ''subject''
           \<and> lecture_name c = get_user_data s (uid u) ''lecture_name''
           \<and> photo_file_id c = file_id (last photo)
           \<and> status c = lit ''submitted''
           \<and> complaint_counter (fst (handle_update admin gw s (PhotoMessage ch u photo)))
               = complaint_counter s + 1
           \<and> complaint_store (fst (handle_update admin gw s (PhotoMessage ch u photo)))
               = (complaint_store s)(cid c \<mapsto> c)
           \<and> (gw (ReplyText (ComplaintSubmittedText (cid c)) None) = Returned \<longrightarrow>
                user_data_store (fst (handle_update admin gw s (PhotoMessage ch u photo)))
                  = (user_data_store s)(uid u := None)
                \<and> conversations (fst (handle_update admin gw s (PhotoMessage ch u photo)))
                  = (conversations s)((ch, uid u) := None)
                \<and> snd (handle_update admin gw s (PhotoMessage ch u photo))
                  = ReplyText (ComplaintSubmittedText (cid c)) None
                    # SendPhoto admin (file_id (last photo))
                    # (if gw (SendPhoto admin (file_id (last photo))) = Returned
                       then [SendMessage admin
                               (ComplaintText (uid u)
                                  (case user_name u of
                                     None \<Rightarrow> lit ''No username''
                                   | Some n \<Rightarrow> if n = [] then lit ''No username'' else n)
                                  (batch c) (subject c) (lecture_name c) (lit ''submitted'')
                                  (cid c))
                               (Some (get_status_keyboard (cid c)))]
                       else []))
           \<and> (gw (ReplyText (ComplaintSubmittedText (cid c)) None) \<noteq> Returned \<longrightarrow>
                user_data_store (fst (handle_update admin gw s (PhotoMessage ch u photo)))
                  = (user_data_store s)
                      (uid u \<mapsto> (get_user_data s (uid u))(''complaint_id'' \<mapsto> cid c))
                \<and> conversations (fst (handle_update admin gw s (PhotoMessage ch u photo)))
                  = conversations s
                \<and> snd (handle_update admin gw s (PhotoMessage ch u photo))
                  = [ReplyText (ComplaintSubmittedText (cid c)) None])
           \<and> (sorted_wrt (\<lambda>a b. width a \<le> width b \<and> height a \<le> height b) photo \<longrightarrow>
                (\<forall>p \<in> set photo. width p \<le> width (last photo)
                                   \<and> height p \<le> height (last photo)))"
proof -
  define new_id where "new_id = lit ''complaint_'' @ str_int (complaint_counter s + 1)"
  define c where "c = \<lparr>cid = new_id, user_id = uid u, username = user_name u,
      batch = get_user_data s (uid u) ''batch'',
      subject = get_user_data s (uid u) ''subject'',
      lecture_name = get_user_data s (uid u) ''lecture_name'',
      photo_file_id = file_id (last photo), status = lit ''submitted'', created_at = None\<rparr>"
  define s' where "s' = fst (handle_update admin gw s (PhotoMessage ch u photo))"
  define calls where "calls = snd (handle_update admin gw s (PhotoMessage ch u photo))"
  have "ids_issued s"
    unfolding assms(1) by (rule ids_issued_run) (rule ids_issued_initial)
  then have fresh: "complaint_store s new_id = None"
    unfolding new_id_def by (rule ids_issued_fresh)
  have id: "cid c = new_id" by (simp add: c_def)
  have h: "handle_update admin gw s (PhotoMessage ch u photo)
      = (if gw (ReplyText (ComplaintSubmittedText new_id) None) \<noteq> Returned
         then (s\<lparr>complaint_counter := complaint_counter s + 1,
                 complaint_store := (complaint_store s)(new_id \<mapsto> c),
                 user_data_store := (user_data_store s)
                   (uid u \<mapsto> (get_user_data s (uid u))(''complaint_id'' \<mapsto> new_id))\<rparr>,
               [ReplyText (ComplaintSubmittedText new_id) None])
         else (s\<lparr>complaint_counter := complaint_counter s + 1,
                 complaint_store := (complaint_store s)(new_id \<mapsto> c),
                 user_data_store := (user_data_store s)(uid u := None),
                 conversations := (conversations s)((ch, uid u) := None)\<rparr>,
               ReplyText (ComplaintSubmittedText new_id) None
               # SendPhoto admin (file_id (last photo))
               # (if gw (SendPhoto admin (file_id (last photo))) \<noteq> Returned then []
                  else [SendMessage admin (format_complaint_message c)
                          (Some (get_status_keyboard new_id))])))"
    unfolding photo_step [OF assms(2,3)] photo_applied [OF assms(3)]
    by (simp add: Let_def new_id_def c_def)
  have fmt: "format_complaint_message c
      = ComplaintText (uid u)
          (case user_name u of
             None \<Rightarrow> lit ''No username''
           | Some n \<Rightarrow> if n = [] then lit ''No username'' else n)
          (batch c) (subject c) (lecture_name c) (lit ''submitted'') new_id"
    by (simp add: format_complaint_message_def c_def Let_def)
  have counter: "complaint_counter s' = complaint_counter s + 1"
    and store: "complaint_store s' = (complaint_store s)(new_id \<mapsto> c)"
    by (simp_all add: s'_def h)
  have sent: "user_data_store s' = (user_data_store s)(uid u := None)
        \<and> conversations s' = (conversations s)((ch, uid u) := None)
        \<and> calls = ReplyText (ComplaintSubmittedText new_id) None
            # SendPhoto admin (file_id (last photo))
            # (if gw (SendPhoto admin (file_id (last photo))) = Returned
               then [SendMessage admin
                       (ComplaintText (uid u)
                          (case user_name u of
                             None \<Rightarrow> lit ''No username''
                           | Some n \<Rightarrow> if n = [] then lit ''No username'' else n)
                          (batch c) (subject c) (lecture_name c) (lit ''submitted'') new_id)
                       (Some (get_status_keyboard new_id))]
               else [])"
    if "gw (ReplyText (ComplaintSubmittedText new_id) None) = Returned"
    using that by (simp add: s'_def calls_def h fmt)
  have lost: "user_data_store s' = (user_data_store s)
                      (uid u \<mapsto> (get_user_data s (uid u))(''complaint_id'' \<mapsto> new_id))
        \<and> conversations s' = conversations s
        \<and> calls = [ReplyText (ComplaintSubmittedText new_id) None]"
    if "gw (ReplyText (ComplaintSubmittedText new_id) None) \<noteq> Returned"
    using that by (simp add: s'_def calls_def h)
  have largest: "\<forall>p \<in> set photo. width p \<le> width (last photo) \<and> height p \<le> height (last photo)"
    if "sorted_wrt (\<lambda>a b. width a \<le> width b \<and> height a \<le> height b) photo"
    using sorted_wrt_last [OF that] by auto
  have "cid c = lit ''complaint_'' @ str_int (complaint_counter s + 1)
           \<and> complaint_store s (cid c) = None
           \<and> user_id c = uid u \<and> username c = user_name u
           \<and> batch c = get_user_data s (uid u) ''batch''
           \<and> subject c = get_user_data s (uid u) ''subject''
           \<and> lecture_name c = get_user_data s (uid u) ''lecture_name''
           \<and> photo_file_id c = file_id (last photo)
           \<and> status c = lit ''submitted''"
    using fresh by (simp add: c_def new_id_def)
  with counter store sent lost largest
  show ?thesis
    unfolding s'_def calls_def id [symmetric]
    by (intro exI [of _ c]) blast
qed

theorem photo_creates_one_complaint_witness:
  "conversations (run DEFAULT_ADMIN_CHAT_ID initial_state example_draft)
     (private_chat, uid alice) = Some SCREENSHOT_UPLOAD
   \<and> example_photo \<noteq> []
   \<and> handle_update DEFAULT_ADMIN_CHAT_ID always_returns
       (run DEFAULT_ADMIN_CHAT_ID initial_state example_draft)
       (PhotoMessage private_chat alice example_photo)
      = (submitted_state,
         [ReplyText (ComplaintSubmittedText (lit ''complaint_1'')) None,
          SendPhoto DEFAULT_ADMIN_CHAT_ID (lit ''large''),
          SendMessage DEFAULT_ADMIN_CHAT_ID
            (ComplaintText 42 (lit ''alice'') (Some (lit ''master quest 2026''))
               (Some (lit ''Quant'')) (Some (lit ''Linear Equations Lecture 3''))
               (lit ''submitted'') (lit ''complaint_1''))
            (Some (get_status_keyboard (lit ''complaint_1'')))])
   \<and> complaint_store submitted_state (lit ''complaint_1'') = Some example_complaint
   \<and> user_data_store submitted_state (uid alice) = None"
proof -
  have a: "conversations (run DEFAULT_ADMIN_CHAT_ID initial_state example_draft)
     (private_chat, uid alice) = Some SCREENSHOT_UPLOAD"
    by (simp add: example_draft_run awaiting_photo_state_def alice_def private_chat_def)
  have b: "example_photo \<noteq> []" by (simp add: example_photo_def)
  have f: "format_complaint_message example_complaint
      = ComplaintText 42 (lit ''alice'') (Some (lit ''master quest 2026''))
               (Some (lit ''Quant'')) (Some (lit ''Linear Equations Lecture 3''))
               (lit ''submitted'') (lit ''complaint_1'')"
    by (simp add: format_complaint_message_def example_complaint_def)
  from photo_creates_one_complaint [OF refl a b, of always_returns] a b
  show ?thesis
    by (simp only: example_draft_run example_photo_step f) (simp add: submitted_state_def)
qed

section \<open>Complaint ids\<close>

text \<open>
  C5.  Complaint ids are unique and increasing over the lifetime of the process.  Every
  call of \<^verbatim>\<open>create_complaint\<close> increments the counter and returns the id that carries
  the new value of the counter; and in every run from the initial globals, the ids
  returned (those the confirmations report), in the order of the calls, are pairwise
  distinct, the sequence number in a later id being strictly greater than that in an
  earlier one.  The order is that of the sequence numbers, not that of the id strings.
\<close>

theorem complaint_ids_increasing:
  "complaint_counter (fst (create_complaint s v n b sb ln f)) = complaint_counter s + 1
   \<and> complaint_number (snd (create_complaint s v n b sb ln f)) = complaint_counter s + 1
   \<and> sorted_wrt (\<lambda>a b. a \<noteq> b \<and> complaint_number a < complaint_number b)
        (issued_ids (run_calls admin initial_state evs))"
proof -
  have "snd (create_complaint s v n b sb ln f)
          = lit ''complaint_'' @ str_int (complaint_counter s + 1)"
    by (simp add: create_complaint_def Let_def)
  then have "complaint_number (snd (create_complaint s v n b sb ln f)) = complaint_counter s + 1"
    by (simp only: complaint_number_id)
  moreover have "complaint_counter (fst (create_complaint s v n b sb ln f)) = complaint_counter s + 1"
    by (simp add: create_complaint_def Let_def)
  ultimately show ?thesis using issued_run [of admin initial_state evs] by blast
qed

theorem complaint_ids_increasing_witness:
  "issued_ids (run_calls DEFAULT_ADMIN_CHAT_ID initial_state (example_submission @ example_submission))
     = [lit ''complaint_1'', lit ''complaint_2'']
   \<and> complaint_number (lit ''complaint_1'') < complaint_number (lit ''complaint_2'')"
proof -
  have e: "lit ''complaint_'' @ lit ''1'' = lit ''complaint_1''"
    "lit ''complaint_'' @ lit ''2'' = lit ''complaint_2''"
    by code_simp+
  have ids: "issued_ids (run_calls DEFAULT_ADMIN_CHAT_ID initial_state
                (example_submission @ example_submission))
             = [lit ''complaint_1'', lit ''complaint_2'']"
    by (simp add: example_submission_def example_draft_def example_photo_def
        screenshot_handler_def create_complaint_def send_complaint_to_admin_def
        get_complaint_def e example_defs)
  from complaint_ids_increasing [of initial_state 0 None None None None "[]"
      DEFAULT_ADMIN_CHAT_ID "example_submission @ example_submission"] ids
  show ?thesis by simp
qed

end
